theory Spec2Isabelle
  imports Complex_Main "HOL-Library.Word"
begin

unbundle bit_operations_syntax

section \<open>The dynamic mask filter (source/filters/filter-dynamic-mask.cpp)\<close>

text \<open>
  A shallow embedding of \<^verbatim>\<open>dynamic_mask_instance\<close>: the members of the class are the
  fields of a record, every method takes the instance and returns the updated one, and
  everything the host (libobs) answers or does during a call is an explicit argument
  (an environment record) or an explicit piece of state (the graphics flags, the
  reference counters of the sources, the list of calls made into the host).
\<close>

subsection \<open>Enumerations and handles\<close>

text \<open>\<^verbatim>\<open>enum class channel\<close>; the source uses its values as indices into a \<^verbatim>\<open>vec4\<close>.\<close>

datatype channel = Red | Green | Blue | Alpha

fun channel_index :: "channel \<Rightarrow> nat" where
  "channel_index Red = 0"
| "channel_index Green = 1"
| "channel_index Blue = 2"
| "channel_index Alpha = 3"

text \<open>
  \<^verbatim>\<open>enum gs_color_space\<close> of libobs, in declaration order; the source compares its values
  with \<^verbatim>\<open><=\<close>, which is the comparison of the ordinals.
\<close>

datatype gs_color_space = GS_CS_SRGB | GS_CS_SRGB_16F | GS_CS_709_EXTENDED | GS_CS_709_SCRGB

fun cs_ord :: "gs_color_space \<Rightarrow> nat" where
  "cs_ord GS_CS_SRGB = 0"
| "cs_ord GS_CS_SRGB_16F = 1"
| "cs_ord GS_CS_709_EXTENDED = 2"
| "cs_ord GS_CS_709_SCRGB = 3"

text \<open>The three values of \<^verbatim>\<open>enum gs_color_format\<close> that the filter ever selects.\<close>

datatype gs_color_format = GS_RGBA | GS_RGBA16F | GS_RGBA_UNORM

text \<open>\<^verbatim>\<open>OBS_SOURCE_SRGB\<close> is bit 15 of a source's output flags (libobs, obs-source.h).\<close>

definition OBS_SOURCE_SRGB :: "32 word" where
  "OBS_SOURCE_SRGB = push_bit 15 1"

text \<open>
  A source is named by an identifier. A texture object (\<^verbatim>\<open>gs_texture_t*\<close>) is an address,
  0 the null pointer; a texture member of the instance is a shared pointer to a wrapper of
  such an object, \<open>None\<close> the empty shared pointer. A render target is known by the colour
  format it was created with.
\<close>

type_synonym source = nat
type_synonym gs_texture = nat
type_synonym texture_ptr = "gs_texture option"
type_synonym rendertarget_ptr = "gs_color_format option"

subsection \<open>Channel data and the precalculated transform\<close>

text \<open>\<^verbatim>\<open>vec4\<close>: four floats, also addressable as \<^verbatim>\<open>ptr[0..3]\<close>.\<close>

record vec4 =
  vx :: real
  vy :: real
  vz :: real
  vw :: real

fun vec4_ptr :: "vec4 \<Rightarrow> nat \<Rightarrow> real" where
  "vec4_ptr v i = (if i = 0 then vx v else if i = 1 then vy v else if i = 2 then vz v else vw v)"

fun vec4_ptr_set :: "vec4 \<Rightarrow> nat \<Rightarrow> real \<Rightarrow> vec4" where
  "vec4_ptr_set v i a =
     (if i = 0 then v\<lparr>vx := a\<rparr> else if i = 1 then v\<lparr>vy := a\<rparr>
      else if i = 2 then v\<lparr>vz := a\<rparr> else v\<lparr>vw := a\<rparr>)"

record matrix4 =
  mx :: vec4
  my :: vec4
  mz :: vec4
  mt :: vec4

record channel_data =
  cd_value :: real
  cd_scale :: real
  cd_values :: vec4

record precalc =
  pc_base :: vec4
  pc_scale :: vec4
  pc_matrix :: matrix4

subsection \<open>The instance\<close>

record dynamic_mask_instance =
  input :: "source option"
  input_child :: "source option"
  input_vs :: "source option"
  input_ac :: "source option"
  have_base :: bool
  base_rt :: rendertarget_ptr
  base_tex :: texture_ptr
  base_color_space :: gs_color_space
  base_color_format :: gs_color_format
  base_srgb :: bool
  have_input :: bool
  input_rt :: rendertarget_ptr
  input_tex :: texture_ptr
  input_color_space :: gs_color_space
  input_color_format :: gs_color_format
  input_srgb :: bool
  have_final :: bool
  final_rt :: rendertarget_ptr
  final_tex :: texture_ptr
  final_srgb :: bool
  channels :: "channel \<rightharpoonup> channel_data"
  precalc_data :: precalc
  debug_texture :: int

subsection \<open>video_tick\<close>

text \<open>
  What the host answers during one \<^verbatim>\<open>video_tick\<close>: the colour space and output flags of
  the filter target, whether the weak reference to the input still locks, and the colour
  space and output flags of the input.
\<close>

record tick_env =
  te_target_space :: gs_color_space
  te_target_flags :: "32 word"
  te_input_alive :: bool
  te_input_space :: gs_color_space
  te_input_flags :: "32 word"

text \<open>
  The \<^verbatim>\<open>switch\<close> that picks the format of a colour space. Its \<^verbatim>\<open>default\<close> branch
  (\<^verbatim>\<open>GS_RGBA_UNORM\<close>) is taken by none of the declared enumerators.
\<close>

fun format_of_space :: "gs_color_space \<Rightarrow> gs_color_format" where
  "format_of_space GS_CS_SRGB = GS_RGBA"
| "format_of_space GS_CS_SRGB_16F = GS_RGBA16F"
| "format_of_space GS_CS_709_EXTENDED = GS_RGBA16F"
| "format_of_space GS_CS_709_SCRGB = GS_RGBA16F"

text \<open>\<^verbatim>\<open>_input.lock()\<close>: the bound source, when it is still alive.\<close>

definition lock_input :: "bool \<Rightarrow> dynamic_mask_instance \<Rightarrow> source option" where
  "lock_input alive s = (if alive then input s else None)"

definition tick_base :: "tick_env \<Rightarrow> dynamic_mask_instance \<Rightarrow> dynamic_mask_instance" where
  "tick_base e s =
     (let s1 = s\<lparr>have_base := False\<rparr>;
          s2 = s1\<lparr>base_color_space := te_target_space e\<rparr>;
          s3 = s2\<lparr>base_color_format := format_of_space (base_color_space s2)\<rparr>
      in if te_target_flags e AND OBS_SOURCE_SRGB = OBS_SOURCE_SRGB
         then s3\<lparr>base_srgb := (cs_ord (base_color_space s3) \<le> cs_ord GS_CS_SRGB_16F)\<rparr>
         else s3\<lparr>base_srgb := False\<rparr>)"

definition tick_input :: "tick_env \<Rightarrow> dynamic_mask_instance \<Rightarrow> dynamic_mask_instance" where
  "tick_input e s =
     (case lock_input (te_input_alive e) s of
        Some i \<Rightarrow>
          (let s1 = s\<lparr>have_input := False\<rparr>;
               s2 = s1\<lparr>input_color_space := te_input_space e\<rparr>;
               s3 = s2\<lparr>input_color_format := format_of_space (input_color_space s2)\<rparr>
           in if te_input_flags e AND OBS_SOURCE_SRGB = OBS_SOURCE_SRGB
              then s3\<lparr>input_srgb := (cs_ord (base_color_space s3) \<le> cs_ord GS_CS_SRGB_16F)\<rparr>
              else s3\<lparr>input_srgb := False\<rparr>)
      | None \<Rightarrow> s\<lparr>have_input := False\<rparr>)"

definition video_tick :: "tick_env \<Rightarrow> dynamic_mask_instance \<Rightarrow> dynamic_mask_instance" where
  "video_tick e s =
     (let s1 = tick_input e (tick_base e s);
          s2 = s1\<lparr>have_final := False\<rparr>
      in s2\<lparr>final_srgb := base_srgb s2\<rparr>)"

text \<open>
  The eligibility rule in the words of the specification: a source is sRGB-eligible iff it
  declares sRGB-aware output and its own selected space is in the 8-bit-equivalent range.
\<close>

definition spec_srgb_eligible :: "32 word \<Rightarrow> gs_color_space \<Rightarrow> bool" where
  "spec_srgb_eligible flags space =
     (flags AND OBS_SOURCE_SRGB = OBS_SOURCE_SRGB \<and> cs_ord space \<le> cs_ord GS_CS_SRGB_16F)"

text \<open>
  An instance as the initialiser list of the constructor leaves it, before the first
  \<^verbatim>\<open>update\<close>. The list names neither \<^verbatim>\<open>_base_srgb\<close> nor \<^verbatim>\<open>_input_srgb\<close> nor
  \<^verbatim>\<open>_final_srgb\<close>: what these three members hold is not determined, and is given here by
  three parameters.
\<close>

definition vec4_zero :: vec4 where
  "vec4_zero = \<lparr>vx = 0, vy = 0, vz = 0, vw = 0\<rparr>"

definition constructed :: "bool \<Rightarrow> bool \<Rightarrow> bool \<Rightarrow> dynamic_mask_instance" where
  "constructed bs is fs =
     \<lparr>input = None, input_child = None, input_vs = None, input_ac = None,
      have_base = False, base_rt = None, base_tex = None,
      base_color_space = GS_CS_SRGB, base_color_format = GS_RGBA, base_srgb = bs,
      have_input = False, input_rt = None, input_tex = None,
      input_color_space = GS_CS_SRGB, input_color_format = GS_RGBA, input_srgb = is,
      have_final = False, final_rt = None, final_tex = None, final_srgb = fs,
      channels = Map.empty,
      precalc_data = \<lparr>pc_base = vec4_zero, pc_scale = vec4_zero,
        pc_matrix = \<lparr>mx = vec4_zero, my = vec4_zero, mz = vec4_zero, mt = vec4_zero\<rparr>\<rparr>,
      debug_texture = -1\<rparr>"

subsection \<open>The binding of the input source: acquire and release\<close>

text \<open>
  Modelled from the spec: \<^verbatim>\<open>source_active_reference\<close> and
  \<^verbatim>\<open>source_showing_reference\<close> (obs/obs-source-active-reference.hpp,
  obs/obs-source-showing-reference.hpp) are not among the source files. The specification
  calls the bound source a reference-counted resource whose activity and visibility the
  filter increments and decrements "exactly once per successful increment": creating a
  reference adds one to the counter of its source, dropping the shared pointer that holds
  it subtracts one. The counters of all sources are the state \<open>source_refs\<close>.
\<close>

record source_refs =
  active_refs :: "source \<Rightarrow> int"
  showing_refs :: "source \<Rightarrow> int"

definition add_reference :: "(source \<Rightarrow> int) \<Rightarrow> source \<Rightarrow> (source \<Rightarrow> int)" where
  "add_reference c x = c(x := c x + 1)"

definition drop_reference :: "(source \<Rightarrow> int) \<Rightarrow> source option \<Rightarrow> (source \<Rightarrow> int)" where
  "drop_reference c r = (case r of None \<Rightarrow> c | Some x \<Rightarrow> c(x := c x - 1))"

text \<open>
  What the host answers during \<^verbatim>\<open>acquire\<close>: the source a name resolves to (\<open>None\<close>: the
  constructor of \<^verbatim>\<open>weak_source\<close> throws), whether making the source an active child of
  the filter would close a render cycle (the constructor of \<^verbatim>\<open>source_active_child\<close>
  throws), whether the filter and its parent are active and showing, and whether creating
  the activity or the visibility reference throws.
\<close>

record bind_env =
  be_resolve :: "string \<Rightarrow> source option"
  be_recursion :: "source \<Rightarrow> bool"
  be_self_active :: bool
  be_parent_active :: bool
  be_self_showing :: bool
  be_parent_showing :: bool
  be_activate_throws :: bool
  be_show_throws :: bool

datatype exn = StdException | OtherException

type_synonym bound = "source_refs \<times> dynamic_mask_instance"

definition deactivate :: "bound \<Rightarrow> bound" where
  "deactivate ws =
     (case ws of (w, s) \<Rightarrow>
        (w\<lparr>active_refs := drop_reference (active_refs w) (input_ac s)\<rparr>, s\<lparr>input_ac := None\<rparr>))"

definition hide :: "bound \<Rightarrow> bound" where
  "hide ws =
     (case ws of (w, s) \<Rightarrow>
        (w\<lparr>showing_refs := drop_reference (showing_refs w) (input_vs s)\<rparr>, s\<lparr>input_vs := None\<rparr>))"

text \<open>
  \<^verbatim>\<open>activate\<close> and \<^verbatim>\<open>show\<close>: the new reference is created first, then assigned to the
  member, which drops the reference the member held before.
\<close>

definition activate :: "bind_env \<Rightarrow> bound \<Rightarrow> exn + bound" where
  "activate e ws =
     (case ws of (w, s) \<Rightarrow>
        (case input s of
           None \<Rightarrow> Inr (w, s)
         | Some i \<Rightarrow>
             if \<not> be_self_active e \<or> \<not> be_parent_active e then Inr (w, s)
             else if be_activate_throws e then Inl StdException
             else Inr (w\<lparr>active_refs :=
                          drop_reference (add_reference (active_refs w) i) (input_ac s)\<rparr>,
                       s\<lparr>input_ac := Some i\<rparr>)))"

definition show_input :: "bind_env \<Rightarrow> bound \<Rightarrow> exn + bound" where
  "show_input e ws =
     (case ws of (w, s) \<Rightarrow>
        (case input s of
           None \<Rightarrow> Inr (w, s)
         | Some i \<Rightarrow>
             if \<not> be_self_showing e \<or> \<not> be_parent_showing e then Inr (w, s)
             else if be_show_throws e then Inl StdException
             else Inr (w\<lparr>showing_refs :=
                          drop_reference (add_reference (showing_refs w) i) (input_vs s)\<rparr>,
                       s\<lparr>input_vs := Some i\<rparr>)))"

definition release :: "bound \<Rightarrow> bound" where
  "release ws =
     (case hide (deactivate ws) of (w, s) \<Rightarrow>
        (w, (s\<lparr>input_child := None\<rparr>)\<lparr>input := None\<rparr>))"

text \<open>
  \<^verbatim>\<open>acquire\<close>: the body of the \<^verbatim>\<open>try\<close> up to the first statement that throws, then the
  handler, which releases and returns false.
\<close>

definition acquire :: "bind_env \<Rightarrow> string \<Rightarrow> bound \<Rightarrow> bool \<times> bound" where
  "acquire e name ws =
     (case ws of (w, s) \<Rightarrow>
        (case be_resolve e name of
           None \<Rightarrow> (False, release (w, s))
         | Some i \<Rightarrow>
             (let s1 = s\<lparr>input := Some i\<rparr> in
              if be_recursion e i then (False, release (w, s1))
              else
                (let s2 = s1\<lparr>input_child := Some i\<rparr> in
                 case activate e (w, s2) of
                   Inl x \<Rightarrow> (False, release (w, s2))
                 | Inr ws3 \<Rightarrow>
                     (case show_input e ws3 of
                        Inl x \<Rightarrow> (False, release ws3)
                      | Inr ws4 \<Rightarrow> (True, ws4))))))"

text \<open>The binding holds nothing: the state \<^verbatim>\<open>release\<close> leaves.\<close>

definition unbound :: "dynamic_mask_instance \<Rightarrow> bool" where
  "unbound s =
     (input s = None \<and> input_child s = None \<and> input_vs s = None \<and> input_ac s = None)"

text \<open>The references the instance itself holds on a source.\<close>

definition held :: "source option \<Rightarrow> source \<Rightarrow> int" where
  "held r x = (if r = Some x then 1 else 0)"

subsection \<open>Settings: the configuration store\<close>

text \<open>
  \<^verbatim>\<open>obs_data_t\<close> of libobs, as far as the filter uses it: every key has at most a value
  the user set and at most a default; a read takes the user's value, else the default,
  else the zero of the type that is read (also when the item has another type).
\<close>

datatype obs_item = ItemString string | ItemDouble real | ItemInt int

record obs_data =
  od_values :: "string \<rightharpoonup> obs_item"
  od_defaults :: "string \<rightharpoonup> obs_item"

definition obs_data_item :: "obs_data \<Rightarrow> string \<Rightarrow> obs_item option" where
  "obs_data_item d k = (case od_values d k of Some v \<Rightarrow> Some v | None \<Rightarrow> od_defaults d k)"

definition obs_data_get_double :: "obs_data \<Rightarrow> string \<Rightarrow> real" where
  "obs_data_get_double d k =
     (case obs_data_item d k of
        Some (ItemDouble v) \<Rightarrow> v
      | Some (ItemInt i) \<Rightarrow> of_int i
      | _ \<Rightarrow> 0)"

definition obs_data_get_int :: "obs_data \<Rightarrow> string \<Rightarrow> int" where
  "obs_data_get_int d k =
     (case obs_data_item d k of
        Some (ItemInt i) \<Rightarrow> i
      | Some (ItemDouble v) \<Rightarrow> (if 0 \<le> v then \<lfloor>v\<rfloor> else \<lceil>v\<rceil>)
      | _ \<Rightarrow> 0)"

definition obs_data_get_string :: "obs_data \<Rightarrow> string \<Rightarrow> string" where
  "obs_data_get_string d k =
     (case obs_data_item d k of Some (ItemString v) \<Rightarrow> v | _ \<Rightarrow> [])"

definition obs_data_set_double :: "obs_data \<Rightarrow> string \<Rightarrow> real \<Rightarrow> obs_data" where
  "obs_data_set_double d k v = d\<lparr>od_values := (od_values d)(k \<mapsto> ItemDouble v)\<rparr>"

definition obs_data_set_string :: "obs_data \<Rightarrow> string \<Rightarrow> string \<Rightarrow> obs_data" where
  "obs_data_set_string d k v = d\<lparr>od_values := (od_values d)(k \<mapsto> ItemString v)\<rparr>"

definition obs_data_set_default_double :: "obs_data \<Rightarrow> string \<Rightarrow> real \<Rightarrow> obs_data" where
  "obs_data_set_default_double d k v = d\<lparr>od_defaults := (od_defaults d)(k \<mapsto> ItemDouble v)\<rparr>"

definition obs_data_set_default_int :: "obs_data \<Rightarrow> string \<Rightarrow> int \<Rightarrow> obs_data" where
  "obs_data_set_default_int d k v = d\<lparr>od_defaults := (od_defaults d)(k \<mapsto> ItemInt v)\<rparr>"

subsection \<open>Keys\<close>

definition ST_KEY_INPUT :: string where
  "ST_KEY_INPUT = ''Filter.DynamicMask.Input''"

definition ST_KEY_CHANNEL :: string where
  "ST_KEY_CHANNEL = ''Filter.DynamicMask.Channel''"

definition ST_KEY_CHANNEL_VALUE :: string where
  "ST_KEY_CHANNEL_VALUE = ''Filter.DynamicMask.Channel.Value''"

definition ST_KEY_CHANNEL_MULTIPLIER :: string where
  "ST_KEY_CHANNEL_MULTIPLIER = ''Filter.DynamicMask.Channel.Multiplier''"

definition ST_KEY_CHANNEL_INPUT :: string where
  "ST_KEY_CHANNEL_INPUT = ''Filter.DynamicMask.Channel.Input''"

definition ST_KEY_DEBUG_TEXTURE :: string where
  "ST_KEY_DEBUG_TEXTURE = ''Debug.Texture''"

text \<open>
  What the source takes from headers that are not among the source files, and from the
  language: the names \<^verbatim>\<open>S_CHANNEL_RED\<close>, ... of the channels (strings.hpp), the
  conversion \<^verbatim>\<open>static_cast<float_t>\<close> of a finite double to single precision (finite
  floating point values are the reals they denote, so the conversion back to double is the
  identity), and the value of a default-constructed \<^verbatim>\<open>channel_data\<close>
  (filter-dynamic-mask.hpp).
\<close>

record platform =
  S_CHANNEL :: "channel \<Rightarrow> string"
  to_float_t :: "real \<Rightarrow> real"
  new_channel_data :: channel_data

definition channel_translations :: "platform \<Rightarrow> (channel \<times> string) list" where
  "channel_translations P =
     [(Red, S_CHANNEL P Red), (Green, S_CHANNEL P Green),
      (Blue, S_CHANNEL P Blue), (Alpha, S_CHANNEL P Alpha)]"

definition chv_key :: "string \<Rightarrow> string" where
  "chv_key n = ST_KEY_CHANNEL_VALUE @ ''.'' @ n"

definition chm_key :: "string \<Rightarrow> string" where
  "chm_key n = ST_KEY_CHANNEL_MULTIPLIER @ ''.'' @ n"

definition ab_key :: "string \<Rightarrow> string \<Rightarrow> string" where
  "ab_key n1 n2 = ST_KEY_CHANNEL_INPUT @ ''.'' @ n1 @ ''.'' @ n2"

subsection \<open>update\<close>

text \<open>
  \<^verbatim>\<open>_channels.find\<close>, and on a miss \<^verbatim>\<open>insert\<close> and \<^verbatim>\<open>find\<close> again; a second miss
  throws \<^verbatim>\<open>std::runtime_error\<close>.
\<close>

definition find_or_insert ::
  "platform \<Rightarrow> channel \<Rightarrow> (channel \<rightharpoonup> channel_data) \<Rightarrow>
   exn + (channel \<rightharpoonup> channel_data) \<times> channel_data" where
  "find_or_insert P c m =
     (case m c of
        Some found \<Rightarrow> Inr (m, found)
      | None \<Rightarrow>
          (let m' = m(c \<mapsto> new_channel_data P) in
           case m' c of
             Some found \<Rightarrow> Inr (m', found)
           | None \<Rightarrow> Inl StdException))"

text \<open>The \<^verbatim>\<open>switch\<close> that picks the row of the matrix, read and written.\<close>

fun matrix_row :: "matrix4 \<Rightarrow> channel \<Rightarrow> vec4" where
  "matrix_row m Red = mx m"
| "matrix_row m Green = my m"
| "matrix_row m Blue = mz m"
| "matrix_row m Alpha = mt m"

fun matrix_row_set :: "matrix4 \<Rightarrow> channel \<Rightarrow> vec4 \<Rightarrow> matrix4" where
  "matrix_row_set m Red v = m\<lparr>mx := v\<rparr>"
| "matrix_row_set m Green v = m\<lparr>my := v\<rparr>"
| "matrix_row_set m Blue v = m\<lparr>mz := v\<rparr>"
| "matrix_row_set m Alpha v = m\<lparr>mt := v\<rparr>"

text \<open>
  The inner loop over \<^verbatim>\<open>kv2\<close>: it writes \<^verbatim>\<open>found->second.values\<close> and the row \<^verbatim>\<open>ch\<close>
  of the matrix, both passed and returned.
\<close>

fun update_inputs ::
  "platform \<Rightarrow> obs_data \<Rightarrow> string \<Rightarrow> (channel \<times> string) list \<Rightarrow> vec4 \<times> vec4 \<Rightarrow> vec4 \<times> vec4" where
  "update_inputs P d n1 [] acc = acc"
| "update_inputs P d n1 (kv2 # rest) acc =
     (case acc of (vals, ch) \<Rightarrow>
        (let i = channel_index (fst kv2);
             vals' = vec4_ptr_set vals i
                       (to_float_t P (obs_data_get_double d (ab_key n1 (snd kv2))));
             ch' = vec4_ptr_set ch i (vec4_ptr vals' i)
         in update_inputs P d n1 rest (vals', ch')))"

text \<open>One round of the outer loop, for the pair \<^verbatim>\<open>kv1\<close>.\<close>

definition update_channel ::
  "platform \<Rightarrow> obs_data \<Rightarrow> channel \<times> string \<Rightarrow> dynamic_mask_instance \<Rightarrow>
   exn + dynamic_mask_instance" where
  "update_channel P d kv1 s =
     (case find_or_insert P (fst kv1) (channels s) of
        Inl x \<Rightarrow> Inl x
      | Inr (m, found) \<Rightarrow>
          (let i = channel_index (fst kv1);
               found1 = found\<lparr>cd_value :=
                          to_float_t P (obs_data_get_double d (chv_key (snd kv1)))\<rparr>;
               pc1 = (precalc_data s)\<lparr>pc_base :=
                          vec4_ptr_set (pc_base (precalc_data s)) i (cd_value found1)\<rparr>;
               found2 = found1\<lparr>cd_scale :=
                          to_float_t P (obs_data_get_double d (chm_key (snd kv1)))\<rparr>;
               pc2 = pc1\<lparr>pc_scale := vec4_ptr_set (pc_scale pc1) i (cd_scale found2)\<rparr>;
               r = update_inputs P d (snd kv1) (channel_translations P)
                     (cd_values found2, matrix_row (pc_matrix pc2) (fst kv1));
               found3 = found2\<lparr>cd_values := fst r\<rparr>;
               pc3 = pc2\<lparr>pc_matrix := matrix_row_set (pc_matrix pc2) (fst kv1) (snd r)\<rparr>
           in Inr (s\<lparr>channels := m(fst kv1 \<mapsto> found3), precalc_data := pc3\<rparr>)))"

fun update_channels ::
  "platform \<Rightarrow> obs_data \<Rightarrow> (channel \<times> string) list \<Rightarrow> dynamic_mask_instance \<Rightarrow>
   exn + dynamic_mask_instance" where
  "update_channels P d [] s = Inr s"
| "update_channels P d (kv1 # rest) s =
     (case update_channel P d kv1 s of
        Inl x \<Rightarrow> Inl x
      | Inr s' \<Rightarrow> update_channels P d rest s')"

text \<open>
  \<^verbatim>\<open>update\<close>. A failed \<^verbatim>\<open>acquire\<close> is logged and nothing else; the log is not part of
  the model.
\<close>

definition update :: "platform \<Rightarrow> bind_env \<Rightarrow> obs_data \<Rightarrow> bound \<Rightarrow> exn + bound" where
  "update P e d ws =
     (let v = obs_data_get_string d ST_KEY_INPUT;
          ws1 = (if v \<noteq> [] then snd (acquire e v ws) else release ws)
      in case update_channels P d (channel_translations P) (snd ws1) of
           Inl x \<Rightarrow> Inl x
         | Inr s' \<Rightarrow>
             Inr (fst ws1, s'\<lparr>debug_texture := obs_data_get_int d ST_KEY_DEBUG_TEXTURE\<rparr>))"

subsection \<open>save\<close>

fun save_inputs ::
  "string \<Rightarrow> (channel \<times> string) list \<Rightarrow> vec4 \<Rightarrow> obs_data \<Rightarrow> obs_data" where
  "save_inputs n1 [] vals d = d"
| "save_inputs n1 (kv2 # rest) vals d =
     save_inputs n1 rest vals
       (obs_data_set_double d (ab_key n1 (snd kv2)) (vec4_ptr vals (channel_index (fst kv2))))"

definition save_channel ::
  "platform \<Rightarrow> channel \<times> string \<Rightarrow> dynamic_mask_instance \<times> obs_data \<Rightarrow>
   exn + dynamic_mask_instance \<times> obs_data" where
  "save_channel P kv1 sd =
     (case sd of (s, d) \<Rightarrow>
        (case find_or_insert P (fst kv1) (channels s) of
           Inl x \<Rightarrow> Inl x
         | Inr (m, found) \<Rightarrow>
             (let d1 = obs_data_set_double d (chv_key (snd kv1)) (cd_value found);
                  d2 = obs_data_set_double d1 (chm_key (snd kv1)) (cd_scale found)
              in Inr (s\<lparr>channels := m\<rparr>,
                      save_inputs (snd kv1) (channel_translations P) (cd_values found) d2))))"

fun save_channels ::
  "platform \<Rightarrow> (channel \<times> string) list \<Rightarrow> dynamic_mask_instance \<times> obs_data \<Rightarrow>
   exn + dynamic_mask_instance \<times> obs_data" where
  "save_channels P [] sd = Inr sd"
| "save_channels P (kv1 # rest) sd =
     (case save_channel P kv1 sd of
        Inl x \<Rightarrow> Inl x
      | Inr sd' \<Rightarrow> save_channels P rest sd')"

text \<open>
  \<^verbatim>\<open>save\<close>; \<open>name\<close> is the name of the input source when the weak reference locks,
  \<open>None\<close> when it does not.
\<close>

definition save ::
  "platform \<Rightarrow> string option \<Rightarrow> dynamic_mask_instance \<Rightarrow> obs_data \<Rightarrow>
   exn + dynamic_mask_instance \<times> obs_data" where
  "save P name s d =
     (let d0 = (case name of Some n \<Rightarrow> obs_data_set_string d ST_KEY_INPUT n | None \<Rightarrow> d)
      in save_channels P (channel_translations P) (s, d0))"

subsection \<open>get_defaults2\<close>

fun defaults_inputs :: "string \<Rightarrow> (channel \<times> string) list \<Rightarrow> obs_data \<Rightarrow> obs_data" where
  "defaults_inputs n [] d = d"
| "defaults_inputs n (kv2 # rest) d =
     defaults_inputs n rest (obs_data_set_default_double d (ab_key n (snd kv2)) 0)"

fun defaults_channels ::
  "platform \<Rightarrow> (channel \<times> string) list \<Rightarrow> obs_data \<Rightarrow> obs_data" where
  "defaults_channels P [] d = d"
| "defaults_channels P (kv # rest) d =
     (let d1 = obs_data_set_default_double d (chv_key (snd kv)) 1;
          d2 = obs_data_set_default_double d1 (chm_key (snd kv)) 1
      in defaults_channels P rest (defaults_inputs (snd kv) (channel_translations P) d2))"

definition get_defaults2 :: "platform \<Rightarrow> obs_data \<Rightarrow> obs_data" where
  "get_defaults2 P d =
     (let d1 = obs_data_set_default_int d ST_KEY_CHANNEL (int (channel_index Red));
          d2 = defaults_channels P (channel_translations P) d1
      in obs_data_set_default_int d2 ST_KEY_DEBUG_TEXTURE (-1))"

text \<open>All keys \<^verbatim>\<open>update\<close> reads offsets, scales and weights from.\<close>

definition channel_keys :: "string \<Rightarrow> platform \<Rightarrow> string list" where
  "channel_keys n P =
     chv_key n # chm_key n # map (\<lambda>kv2. ab_key n (snd kv2)) (channel_translations P)"

definition numeric_keys :: "platform \<Rightarrow> string list" where
  "numeric_keys P = concat (map (\<lambda>kv1. channel_keys (snd kv1) P) (channel_translations P))"

subsection \<open>video_render: graphics state, host calls and what the host answers\<close>

text \<open>
  The two sRGB flags of the graphics context: \<^verbatim>\<open>gs_framebuffer_srgb_enabled\<close> and
  \<^verbatim>\<open>gs_get_linear_srgb\<close> read them, \<^verbatim>\<open>gs_enable_framebuffer_srgb\<close> and
  \<^verbatim>\<open>gs_set_linear_srgb\<close> write them. The blend state, which every capture pushes and
  pops in pairs, and the cull, depth and stencil settings are not part of the model.
\<close>

record gs_state =
  framebuffer_srgb :: bool
  linear_srgb :: bool

text \<open>
  The calls into the host that produce pixels or signals, in the order they are made:
  skipping the filter, beginning and ending the rendering of the filter target, rendering
  the input source, the pass of the mask effect with the two textures and sRGB flags bound
  to \<^verbatim>\<open>pMaskInputA\<close> and \<^verbatim>\<open>pMaskInputB\<close>, the final draw with the texture bound to
  \<^verbatim>\<open>image\<close> and whether it is bound as sRGB, and an error written to the log.
\<close>

datatype host_call =
    SkipVideoFilter
  | ProcessFilterBegin gs_color_format gs_color_space
  | ProcessFilterEnd
  | RenderSource source
  | MaskPass texture_ptr bool texture_ptr bool
  | DrawSprite gs_texture bool
  | LogError

text \<open>
  How the body of one \<^verbatim>\<open>try\<close> block ends: the render target's \<^verbatim>\<open>render\<close> throws,
  before anything is drawn; or the drawing throws (the inner handler pops the blend state
  and throws again); or the drawing is done and fetching the texture of the render
  target throws; or all of it succeeds and the render target hands out a texture.
\<close>

datatype outcome =
    Throws_at_render exn
  | Throws_in_draw exn
  | Throws_at_get_texture exn
  | Captured gs_texture

text \<open>
  What the host answers during one \<^verbatim>\<open>video_render\<close>: whether the filter, its parent and
  its target exist, the size of the target, whether the weak reference to the input locks
  and the size of the input, whether \<^verbatim>\<open>obs_source_process_filter_begin_with_color_space\<close>
  returns true, how each of the three \<^verbatim>\<open>try\<close> blocks ends, whether the call of
  \<^verbatim>\<open>process_filter_end\<close> that the handlers of the base capture make returns (\<open>None\<close>) or
  throws, the values (framebuffer sRGB, linear sRGB) in which the rendering of the target
  and of the input leave the two flags, and whether the output effect has the parameter
  \<^verbatim>\<open>image\<close>.
\<close>

record render_env =
  re_self :: bool
  re_parent :: bool
  re_target :: bool
  re_width :: "32 word"
  re_height :: "32 word"
  re_input_alive :: bool
  re_input_width :: "32 word"
  re_input_height :: "32 word"
  re_begin :: bool
  re_base_capture :: outcome
  re_handler_end :: "exn option"
  re_base_leaves :: "bool \<times> bool"
  re_input_capture :: outcome
  re_input_leaves :: "bool \<times> bool"
  re_final_render :: outcome
  re_image_param :: bool

record render_state =
  rs_inst :: dynamic_mask_instance
  rs_gs :: gs_state
  rs_calls :: "host_call list"

text \<open>
  How a call of \<^verbatim>\<open>video_render\<close> ends: it draws, it tells the host to skip the filter,
  an exception leaves it, or it runs into undefined behaviour.
\<close>

datatype render_result = Drawn | Skipped | Escaped exn | Undefined

fun returned :: "render_result \<Rightarrow> bool" where
  "returned Drawn = True"
| "returned Skipped = True"
| "returned (Escaped x) = False"
| "returned Undefined = False"

definition call :: "host_call \<Rightarrow> render_state \<Rightarrow> render_state" where
  "call c r = r\<lparr>rs_calls := rs_calls r @ [c]\<rparr>"

definition gs_set_linear_srgb :: "bool \<Rightarrow> render_state \<Rightarrow> render_state" where
  "gs_set_linear_srgb b r = r\<lparr>rs_gs := (rs_gs r)\<lparr>linear_srgb := b\<rparr>\<rparr>"

definition gs_enable_framebuffer_srgb :: "bool \<Rightarrow> render_state \<Rightarrow> render_state" where
  "gs_enable_framebuffer_srgb b r = r\<lparr>rs_gs := (rs_gs r)\<lparr>framebuffer_srgb := b\<rparr>\<rparr>"

text \<open>Rendering done by a source: a call into the host that leaves the flags as it likes.\<close>

definition foreign_render :: "host_call \<Rightarrow> bool \<times> bool \<Rightarrow> render_state \<Rightarrow> render_state" where
  "foreign_render c fl r =
     (call c r)\<lparr>rs_gs := \<lparr>framebuffer_srgb = fst fl, linear_srgb = snd fl\<rparr>\<rparr>"

definition upd_inst ::
  "(dynamic_mask_instance \<Rightarrow> dynamic_mask_instance) \<Rightarrow> render_state \<Rightarrow> render_state" where
  "upd_inst f r = r\<lparr>rs_inst := f (rs_inst r)\<rparr>"

subsection \<open>video_render: the base capture\<close>

text \<open>
  The two handlers of the base capture: both call \<^verbatim>\<open>process_filter_end\<close> and then log.
  The call stands in the handler, outside any \<^verbatim>\<open>try\<close>: when it throws, the exception
  leaves \<^verbatim>\<open>video_render\<close>. A result \<open>(Some x, r)\<close> is the exception \<open>x\<close> on its way out,
  with the state \<open>r\<close> it leaves behind.
\<close>

definition base_handler :: "render_env \<Rightarrow> render_state \<Rightarrow> exn option \<times> render_state" where
  "base_handler e r =
     (let r1 = foreign_render ProcessFilterEnd (re_base_leaves e) r
      in case re_handler_end e of
           Some x \<Rightarrow> (Some x, r1)
         | None \<Rightarrow> (None, call LogError r1))"

text \<open>
  The \<^verbatim>\<open>try\<close> block of the base capture. \<^verbatim>\<open>_have_base = true\<close> stands before
  \<^verbatim>\<open>_base_rt->get_texture(_base_tex)\<close>.
\<close>

definition base_try :: "render_env \<Rightarrow> render_state \<Rightarrow> exn option \<times> render_state" where
  "base_try e r =
     (case re_base_capture e of
        Throws_at_render x \<Rightarrow> base_handler e r
      | Throws_in_draw x \<Rightarrow>
          base_handler e (foreign_render ProcessFilterEnd (re_base_leaves e) r)
      | Throws_at_get_texture x \<Rightarrow>
          (let r1 = foreign_render ProcessFilterEnd (re_base_leaves e) r;
               r2 = upd_inst (\<lambda>s. s\<lparr>have_base := True\<rparr>) r1
           in base_handler e r2)
      | Captured t \<Rightarrow>
          (let r1 = foreign_render ProcessFilterEnd (re_base_leaves e) r;
               r2 = upd_inst (\<lambda>s. s\<lparr>have_base := True\<rparr>) r1
           in (None, upd_inst (\<lambda>s. s\<lparr>base_tex := Some t\<rparr>) r2)))"

text \<open>
  The \<^verbatim>\<open>if\<close> statement around the \<^verbatim>\<open>try\<close> block: the begin step, and the block when the
  step returns true.
\<close>

definition base_begin :: "render_env \<Rightarrow> render_state \<Rightarrow> exn option \<times> render_state" where
  "base_begin e r =
     (let r1 = call (ProcessFilterBegin (base_color_format (rs_inst r))
                       (base_color_space (rs_inst r))) r
      in if re_begin e then base_try e r1 else (None, r1))"

text \<open>The render target is made anew when there is none or its format is not the base's.\<close>

definition ensure_base_rt :: "dynamic_mask_instance \<Rightarrow> dynamic_mask_instance" where
  "ensure_base_rt s =
     (if base_rt s = None \<or> base_rt s \<noteq> Some (base_color_format s)
      then s\<lparr>base_rt := Some (base_color_format s)\<rparr> else s)"

text \<open>
  The capture of the base: the flags are saved and set, the \<^verbatim>\<open>if\<close> statement runs, and
  the two statements after it write the saved flags back. An exception on its way out
  passes them by.
\<close>

definition capture_base :: "render_env \<Rightarrow> render_state \<Rightarrow> exn option \<times> render_state" where
  "capture_base e r =
     (let r1 = upd_inst ensure_base_rt r;
          previous_srgb = framebuffer_srgb (rs_gs r1);
          previous_lsrgb = linear_srgb (rs_gs r1);
          r2 = gs_set_linear_srgb (base_srgb (rs_inst r1)) r1;
          r3 = gs_enable_framebuffer_srgb False r2;
          r5 = base_begin e r3
      in case fst r5 of
           Some x \<Rightarrow> (Some x, snd r5)
         | None \<Rightarrow>
             (None, gs_enable_framebuffer_srgb previous_srgb
                      (gs_set_linear_srgb previous_lsrgb (snd r5))))"

definition stage_base :: "render_env \<Rightarrow> render_state \<Rightarrow> exn option \<times> render_state" where
  "stage_base e r = (if \<not> have_base (rs_inst r) then capture_base e r else (None, r))"

subsection \<open>video_render: the input capture\<close>

text \<open>
  The \<^verbatim>\<open>try\<close> block of the input capture with its two handlers, which only log.
  \<^verbatim>\<open>_have_input = true\<close> stands before \<^verbatim>\<open>_input_rt->get_texture(_input_tex)\<close>.
\<close>

definition input_try :: "render_env \<Rightarrow> source \<Rightarrow> render_state \<Rightarrow> render_state" where
  "input_try e i r =
     (case re_input_capture e of
        Throws_at_render x \<Rightarrow> call LogError r
      | Throws_in_draw x \<Rightarrow>
          call LogError (foreign_render (RenderSource i) (re_input_leaves e) r)
      | Throws_at_get_texture x \<Rightarrow>
          (let r1 = foreign_render (RenderSource i) (re_input_leaves e) r;
               r2 = upd_inst (\<lambda>s. s\<lparr>have_input := True\<rparr>) r1
           in call LogError r2)
      | Captured t \<Rightarrow>
          (let r1 = foreign_render (RenderSource i) (re_input_leaves e) r;
               r2 = upd_inst (\<lambda>s. s\<lparr>have_input := True\<rparr>) r1
           in upd_inst (\<lambda>s. s\<lparr>input_tex := Some t\<rparr>) r2))"

definition capture_input :: "render_env \<Rightarrow> source \<Rightarrow> render_state \<Rightarrow> render_state" where
  "capture_input e i r =
     (let r1 = upd_inst (\<lambda>s. if input_rt s = None \<or> input_rt s \<noteq> Some (input_color_format s)
                              then s\<lparr>input_rt := Some (input_color_format s)\<rparr> else s) r;
          previous_lsrgb = linear_srgb (rs_gs r1);
          r2 = gs_set_linear_srgb (input_srgb (rs_inst r1)) r1;
          previous_srgb = framebuffer_srgb (rs_gs r2);
          r3 = gs_enable_framebuffer_srgb False r2;
          r4 = input_try e i r3;
          r5 = gs_enable_framebuffer_srgb previous_srgb r4
      in gs_set_linear_srgb previous_lsrgb r5)"

text \<open>No selection is treated as selecting the filter target: the input slot copies the base.\<close>

definition alias_base :: "dynamic_mask_instance \<Rightarrow> dynamic_mask_instance" where
  "alias_base s =
     (let s1 = s\<lparr>have_input := have_base s\<rparr>;
          s2 = s1\<lparr>input_tex := base_tex s1\<rparr>;
          s3 = s2\<lparr>input_color_format := base_color_format s2\<rparr>
      in s3\<lparr>input_color_space := base_color_space s3\<rparr>)"

definition stage_input :: "render_env \<Rightarrow> render_state \<Rightarrow> render_state" where
  "stage_input e r =
     (if \<not> have_input (rs_inst r)
      then (case lock_input (re_input_alive e) (rs_inst r) of
              None \<Rightarrow> upd_inst alias_base r
            | Some i \<Rightarrow> capture_input e i r)
      else r)"

subsection \<open>video_render: the final texture, the debug selector and the draw\<close>

text \<open>
  The \<^verbatim>\<open>try\<close> block of the mixing pass. Here the texture is fetched first and
  \<^verbatim>\<open>_have_final\<close> set after it.
\<close>

definition final_try :: "render_env \<Rightarrow> render_state \<Rightarrow> render_state" where
  "final_try e r =
     (let s = rs_inst r;
          pass = MaskPass (base_tex s) (base_srgb s) (input_tex s) (input_srgb s)
      in case re_final_render e of
           Throws_at_render x \<Rightarrow> call LogError r
         | Throws_in_draw x \<Rightarrow> call LogError (call pass r)
         | Throws_at_get_texture x \<Rightarrow> call LogError (call pass r)
         | Captured t \<Rightarrow>
             (let r1 = call pass r;
                  r2 = upd_inst (\<lambda>s. s\<lparr>final_tex := Some t\<rparr>) r1
              in upd_inst (\<lambda>s. s\<lparr>have_final := True\<rparr>) r2))"

definition render_final :: "render_env \<Rightarrow> render_state \<Rightarrow> render_state" where
  "render_final e r =
     (let r1 = upd_inst (\<lambda>s. if final_rt s = None \<or> final_rt s \<noteq> Some (base_color_format s)
                              then s\<lparr>final_rt := Some (base_color_format s)\<rparr> else s) r;
          previous_srgb = framebuffer_srgb (rs_gs r1);
          previous_lsrgb = linear_srgb (rs_gs r1);
          r2 = gs_enable_framebuffer_srgb (final_srgb (rs_inst r1)) r1;
          r3 = gs_set_linear_srgb (final_srgb (rs_inst r2)) r2;
          r4 = final_try e r3;
          r5 = gs_set_linear_srgb previous_lsrgb r4
      in gs_enable_framebuffer_srgb previous_srgb r5)"

definition stage_final :: "render_env \<Rightarrow> render_state \<Rightarrow> render_state" where
  "stage_final e r =
     (if \<not> have_final (rs_inst r) \<and> have_base (rs_inst r) then render_final e r else r)"

text \<open>The \<^verbatim>\<open>switch\<close> on \<^verbatim>\<open>_debug_texture\<close>: cases 0 and 1, no default.\<close>

definition debug_override :: "dynamic_mask_instance \<Rightarrow> dynamic_mask_instance" where
  "debug_override s =
     (if debug_texture s = 0
        then (s\<lparr>have_final := have_base s\<rparr>)\<lparr>final_tex := base_tex s\<rparr>
      else if debug_texture s = 1
        then (s\<lparr>have_final := have_input s\<rparr>)\<lparr>final_tex := input_tex s\<rparr>
      else s)"

text \<open>
  The end of \<^verbatim>\<open>video_render\<close>: without a final texture the filter is skipped; else the
  texture is drawn with the output effect. \<^verbatim>\<open>_final_tex->get_object()\<close> on an empty
  shared pointer is undefined behaviour.
\<close>

definition present :: "render_env \<Rightarrow> render_state \<Rightarrow> render_result \<times> render_state" where
  "present e r =
     (if \<not> have_final (rs_inst r) then (Skipped, call SkipVideoFilter r)
      else case final_tex (rs_inst r) of
             None \<Rightarrow> (Undefined, r)
           | Some t \<Rightarrow>
               if t = 0 then (Skipped, call SkipVideoFilter r)
               else
                 (let previous_srgb = framebuffer_srgb (rs_gs r);
                      r1 = gs_enable_framebuffer_srgb (linear_srgb (rs_gs r)) r
                  in if \<not> re_image_param e
                     then (Skipped,
                           call SkipVideoFilter
                             (gs_enable_framebuffer_srgb previous_srgb (call LogError r1)))
                     else (Drawn,
                           gs_enable_framebuffer_srgb previous_srgb
                             (call (DrawSprite t (linear_srgb (rs_gs r1))) r1))))"

text \<open>The guard at the head of \<^verbatim>\<open>video_render\<close>: true when the call is to be skipped.\<close>

definition render_guard :: "render_env \<Rightarrow> render_state \<Rightarrow> bool" where
  "render_guard e r =
     (if \<not> re_self e \<or> \<not> re_parent e \<or> \<not> re_target e \<or> re_width e = 0 \<or> re_height e = 0
      then True
      else lock_input (re_input_alive e) (rs_inst r) \<noteq> None
           \<and> (re_input_width e = 0 \<or> re_input_height e = 0))"

text \<open>
  The captures and the mixing pass of a call in which no exception leaves the base
  capture, before the debug selector is applied.
\<close>

definition mixed :: "render_env \<Rightarrow> render_state \<Rightarrow> render_state" where
  "mixed e r = stage_final e (stage_input e (snd (stage_base e r)))"

text \<open>
  \<^verbatim>\<open>video_render\<close>: the guard; the base capture, which an exception may leave, and then
  nothing after it runs; the input capture, the mixing pass, the debug selector and the
  draw.
\<close>

definition video_render :: "render_env \<Rightarrow> render_state \<Rightarrow> render_result \<times> render_state" where
  "video_render e r =
     (if render_guard e r then (Skipped, call SkipVideoFilter r)
      else case fst (stage_base e r) of
             Some x \<Rightarrow> (Escaped x, snd (stage_base e r))
           | None \<Rightarrow> present e (upd_inst debug_override (mixed e r)))"

text \<open>
  One tick: \<^verbatim>\<open>video_tick\<close>, then any number of calls of \<^verbatim>\<open>video_render\<close>, each on the
  state the call before it left, however that call ended.
\<close>

definition tick :: "tick_env \<Rightarrow> render_state \<Rightarrow> render_state" where
  "tick te r = upd_inst (video_tick te) r"

fun renders :: "render_env list \<Rightarrow> render_state \<Rightarrow> render_state" where
  "renders [] r = r"
| "renders (e # es) r = renders es (snd (video_render e r))"

text \<open>The input slot is a copy of the base slot.\<close>

definition aliases_base :: "dynamic_mask_instance \<Rightarrow> bool" where
  "aliases_base s =
     (input_tex s = base_tex s \<and> input_color_space s = base_color_space s
      \<and> input_color_format s = base_color_format s \<and> have_input s = have_base s)"

fun is_render_source :: "host_call \<Rightarrow> bool" where
  "is_render_source (RenderSource i) = True"
| "is_render_source c = False"

fun is_mask_pass :: "host_call \<Rightarrow> bool" where
  "is_mask_pass (MaskPass a sa b sb) = True"
| "is_mask_pass c = False"

subsection \<open>Auxiliary notions for the proofs\<close>

text \<open>A store holds, at every key of \<open>K\<close>, the double that \<open>f\<close> gives for the key.\<close>

definition agrees :: "(string \<rightharpoonup> obs_item) \<Rightarrow> (string \<Rightarrow> real) \<Rightarrow> string set \<Rightarrow> bool" where
  "agrees m f K = (\<forall>k\<in>K. m k = Some (ItemDouble (f k)))"

text \<open>
  The data of the channel named \<open>n\<close> is what \<^verbatim>\<open>update\<close> reads for it from the settings
  \<open>d\<close>, converted to \<^verbatim>\<open>float_t\<close>.
\<close>

definition stored :: "platform \<Rightarrow> obs_data \<Rightarrow> string \<Rightarrow> channel_data \<Rightarrow> bool" where
  "stored P d n cd =
     (cd_value cd = to_float_t P (obs_data_get_double d (chv_key n)) \<and>
      cd_scale cd = to_float_t P (obs_data_get_double d (chm_key n)) \<and>
      (\<forall>c2. vec4_ptr (cd_values cd) (channel_index c2) =
            to_float_t P (obs_data_get_double d (ab_key n (S_CHANNEL P c2)))))"

text \<open>
  The default \<^verbatim>\<open>get_defaults2\<close> registers for a key, read off the key: the keys of the
  weights have an \<open>I\<close> (of \<open>Input\<close>) at position 27, where the keys of the offsets have a
  \<open>V\<close> and those of the scales an \<open>M\<close>.
\<close>

definition default_of :: "string \<Rightarrow> real" where
  "default_of k = (if k ! 27 = CHR ''I'' then 0 else 1)"

text \<open>
  What holds of an instance with no input bound between \<^verbatim>\<open>video_tick\<close> and the next: once
  the input slot is valid, it is a copy of the base slot.
\<close>

definition tick_invariant :: "dynamic_mask_instance \<Rightarrow> bool" where
  "tick_invariant s = (input s = None \<and> (have_input s \<longrightarrow> aliases_base s))"


subsection \<open>Concrete inputs\<close>

text \<open>
  A platform to run the functions on: channel names, a default \<^verbatim>\<open>channel_data\<close>, and a
  conversion that keeps ten binary digits after the point. Like the conversion to single
  precision it rounds, and it is the identity on the values it can represent, among them
  every value used below.
\<close>

definition demo_platform :: platform where
  "demo_platform =
     \<lparr>S_CHANNEL = (\<lambda>c. case c of Red \<Rightarrow> ''Channel.Red'' | Green \<Rightarrow> ''Channel.Green''
                        | Blue \<Rightarrow> ''Channel.Blue'' | Alpha \<Rightarrow> ''Channel.Alpha''),
      to_float_t = (\<lambda>x. real_of_int (round (x * 1024)) / 1024),
      new_channel_data = \<lparr>cd_value = 0, cd_scale = 1, cd_values = vec4_zero\<rparr>\<rparr>"

text \<open>A constructed instance whose three undetermined members hold false.\<close>

definition built :: dynamic_mask_instance where
  "built = constructed False False False"

definition empty_settings :: obs_data where
  "empty_settings = \<lparr>od_values = Map.empty, od_defaults = Map.empty\<rparr>"

text \<open>
  Settings that give every offset 250, every scale -1000.5 and every weight 0.25: all but
  the weights lie outside the range [-100, 100] of the sliders.
\<close>

definition demo_value :: "string \<Rightarrow> real" where
  "demo_value k = (if k ! 27 = CHR ''V'' then 250 else if k ! 27 = CHR ''M'' then - (2001 / 2) else 1 / 4)"

definition demo_settings :: obs_data where
  "demo_settings =
     \<lparr>od_values = map_of (map (\<lambda>k. (k, ItemDouble (demo_value k))) (numeric_keys demo_platform)),
      od_defaults = Map.empty\<rparr>"

definition no_refs :: source_refs where
  "no_refs = \<lparr>active_refs = (\<lambda>x. 0), showing_refs = (\<lambda>x. 0)\<rparr>"

text \<open>A host in which no name resolves to a source.\<close>

definition vanished_env :: bind_env where
  "vanished_env =
     \<lparr>be_resolve = (\<lambda>n. None), be_recursion = (\<lambda>i. False),
      be_self_active = True, be_parent_active = True,
      be_self_showing = True, be_parent_showing = True,
      be_activate_throws = False, be_show_throws = False\<rparr>"

text \<open>A host in which the name \<open>Loop\<close> resolves to source 2, which renders the filter's parent.\<close>

definition cycle_env :: bind_env where
  "cycle_env =
     \<lparr>be_resolve = (\<lambda>n. if n = ''Loop'' then Some 2 else None), be_recursion = (\<lambda>i. i = 2),
      be_self_active = True, be_parent_active = True,
      be_self_showing = True, be_parent_showing = True,
      be_activate_throws = False, be_show_throws = False\<rparr>"

text \<open>
  An instance bound to source 1, active and showing, and the counters of a host in which
  this binding holds the only references on source 1.
\<close>

definition bound_to_1 :: dynamic_mask_instance where
  "bound_to_1 =
     built\<lparr>input := Some 1, input_child := Some 1, input_vs := Some 1, input_ac := Some 1\<rparr>"

definition refs_on_1 :: source_refs where
  "refs_on_1 =
     \<lparr>active_refs = (\<lambda>x. if x = 1 then 1 else 0), showing_refs = (\<lambda>x. if x = 1 then 1 else 0)\<rparr>"

text \<open>
  A host in which everything succeeds: a target of 1920 by 1080, a live input of 640 by 480,
  the base captured into texture 20, the input into texture 21, the mix into texture 30;
  the rendering of the target leaves the flags as it found them during the capture of an
  sRGB base (framebuffer sRGB off, linear sRGB on), the rendering of the input leaves them
  changed.
\<close>

definition ok_env :: render_env where
  "ok_env =
     \<lparr>re_self = True, re_parent = True, re_target = True, re_width = 1920, re_height = 1080,
      re_input_alive = True, re_input_width = 640, re_input_height = 480, re_begin = True,
      re_base_capture = Captured 20, re_handler_end = None, re_base_leaves = (False, True),
      re_input_capture = Captured 21, re_input_leaves = (False, True),
      re_final_render = Captured 30, re_image_param = True\<rparr>"

text \<open>
  A constructed instance in a graphics context with framebuffer sRGB on and linear sRGB
  off, before any call; and the same with the input bound to source 7.
\<close>

definition fresh :: render_state where
  "fresh =
     \<lparr>rs_inst = built, rs_gs = \<lparr>framebuffer_srgb = True, linear_srgb = False\<rparr>,
      rs_calls = []\<rparr>"

definition fresh_bound :: render_state where
  "fresh_bound = fresh\<lparr>rs_inst := built\<lparr>input := Some 7\<rparr>\<rparr>"

text \<open>A tick in which target and input are sRGB sources in the sRGB colour space.\<close>

definition srgb_tick :: tick_env where
  "srgb_tick =
     \<lparr>te_target_space = GS_CS_SRGB, te_target_flags = OBS_SOURCE_SRGB, te_input_alive = True,
      te_input_space = GS_CS_SRGB, te_input_flags = OBS_SOURCE_SRGB\<rparr>"

text \<open>
  An instance whose input was bound to source 7 during a tick in which everything was
  captured (the base into texture 20, the input into texture 21), and is then unbound, as
  \<^verbatim>\<open>update\<close> does for an empty name.
\<close>

definition after_unbinding :: render_state where
  "after_unbinding =
     upd_inst (\<lambda>s. snd (release (no_refs, s)))
       (snd (video_render ok_env (tick srgb_tick fresh_bound)))"

text \<open>
  An instance in the middle of a tick in which everything was captured and mixed (the base
  into texture 20, the mix into texture 30), after which the debug selector is set to 0, the
  base, as \<^verbatim>\<open>update\<close> does when the user selects it.
\<close>

definition after_selecting_base :: render_state where
  "after_selecting_base =
     upd_inst (\<lambda>s. s\<lparr>debug_texture := 0\<rparr>)
       (snd (video_render ok_env (tick srgb_tick fresh_bound)))"

section \<open>Theorems\<close>

text \<open>
  C1. The sRGB eligibility of each source should follow from that source's own colour
  space. The base does; the input does not: \<^verbatim>\<open>video_tick\<close> tests the base's colour space
  when it sets \<^verbatim>\<open>_input_srgb\<close>. With an sRGB base and an input in the extended 709 space,
  both declaring sRGB-aware output, the input is recorded as sRGB-eligible although the
  rule of the specification says it is not.
\<close>

theorem video_tick_input_srgb_follows_base_space:
  "input_srgb (video_tick
      \<lparr>te_target_space = GS_CS_SRGB, te_target_flags = OBS_SOURCE_SRGB, te_input_alive = True,
       te_input_space = GS_CS_709_EXTENDED, te_input_flags = OBS_SOURCE_SRGB\<rparr>
      (built\<lparr>input := Some 7\<rparr>)) = True
   \<and> spec_srgb_eligible OBS_SOURCE_SRGB GS_CS_709_EXTENDED = False
   \<and> base_srgb (video_tick
      \<lparr>te_target_space = GS_CS_SRGB, te_target_flags = OBS_SOURCE_SRGB, te_input_alive = True,
       te_input_space = GS_CS_709_EXTENDED, te_input_flags = OBS_SOURCE_SRGB\<rparr>
      (built\<lparr>input := Some 7\<rparr>)) = spec_srgb_eligible OBS_SOURCE_SRGB GS_CS_SRGB"
  by (simp add: video_tick_def tick_input_def tick_base_def lock_input_def built_def constructed_def
      spec_srgb_eligible_def Let_def)

subsection \<open>Release and failed acquisition\<close>

lemma release_unbound: "unbound (snd (release ws))"
  by (cases ws) (simp add: release_def hide_def deactivate_def unbound_def)

lemma release_counts:
  "active_refs (fst (release (w, s))) x = active_refs w x - held (input_ac s) x"
  "showing_refs (fst (release (w, s))) x = showing_refs w x - held (input_vs s) x"
  by (simp_all add: release_def hide_def deactivate_def drop_reference_def held_def
      split: option.splits)

lemma release_release: "release (release ws) = release ws"
  by (cases ws) (simp add: release_def hide_def deactivate_def drop_reference_def)

lemma release_funpow: "(release ^^ Suc n) ws = release ws"
  by (induction n) (simp_all add: release_release)

lemma acquire_fails_when:
  "be_resolve e name = None \<or> (\<exists>i. be_resolve e name = Some i \<and> be_recursion e i)
   \<Longrightarrow> \<not> fst (acquire e name ws)"
  by (cases ws) (auto simp: acquire_def Let_def)

lemma acquire_failure_state:
  assumes "\<not> fst (acquire e name (w, s))"
  shows "unbound (snd (snd (acquire e name (w, s))))"
  using assms
  by (auto simp: acquire_def Let_def release_unbound split: option.splits if_splits sum.splits)

lemma acquire_failure_active:
  assumes "\<not> fst (acquire e name (w, s))"
  shows "active_refs (fst (snd (acquire e name (w, s)))) x
           = active_refs w x - held (input_ac s) x"
  using assms
  by (auto simp: acquire_def Let_def release_counts activate_def show_input_def
      add_reference_def drop_reference_def held_def
      split: option.splits if_splits sum.splits prod.splits)

lemma acquire_failure_showing:
  assumes "\<not> fst (acquire e name (w, s))"
  shows "showing_refs (fst (snd (acquire e name (w, s)))) x
           = showing_refs w x - held (input_vs s) x"
  using assms
  by (auto simp: acquire_def Let_def release_counts activate_def show_input_def
      add_reference_def drop_reference_def held_def
      split: option.splits if_splits sum.splits prod.splits)

text \<open>
  C8, as the code has it. An acquisition whose name does not resolve, or whose source would
  close a render cycle, returns false; every acquisition that returns false leaves the
  binding unbound: the source reference, the cycle guard and the visibility and activity
  references are all dropped. The handler releases whatever the instance held, so each
  counter ends at its value before the attempt less the reference the instance itself held
  on that source before the attempt: nothing the attempt took is left behind, and the
  counters are back at their values from before the attempt for every source the instance
  held no reference on, which is every source when the attempt starts unbound. Any
  positive number of releases, from any state, leaves the state one release leaves, and
  that state is unbound.
\<close>

theorem acquire_failure_releases:
  "((be_resolve e name = None \<or> (\<exists>i. be_resolve e name = Some i \<and> be_recursion e i))
      \<longrightarrow> \<not> fst (acquire e name (w, s)))
   \<and> (\<not> fst (acquire e name (w, s)) \<longrightarrow>
        unbound (snd (snd (acquire e name (w, s))))
        \<and> (\<forall>x. active_refs (fst (snd (acquire e name (w, s)))) x
                 = active_refs w x - held (input_ac s) x)
        \<and> (\<forall>x. showing_refs (fst (snd (acquire e name (w, s)))) x
                 = showing_refs w x - held (input_vs s) x)
        \<and> (unbound s \<longrightarrow> fst (snd (acquire e name (w, s))) = w))
   \<and> (release ^^ Suc n) (w, s) = release (w, s)
   \<and> unbound (snd (release (w, s)))"
proof -
  have restored: "fst (snd (acquire e name (w, s))) = w"
    if "\<not> fst (acquire e name (w, s))" "unbound s"
  proof -
    have "active_refs (fst (snd (acquire e name (w, s)))) = active_refs w"
      using acquire_failure_active [OF that(1)] that(2) by (auto simp: unbound_def held_def)
    moreover have "showing_refs (fst (snd (acquire e name (w, s)))) = showing_refs w"
      using acquire_failure_showing [OF that(1)] that(2) by (auto simp: unbound_def held_def)
    ultimately show ?thesis by simp
  qed
  show ?thesis
    using acquire_fails_when [of e name "(w, s)"] acquire_failure_state [of e name w s]
      acquire_failure_active [of e name w s] acquire_failure_showing [of e name w s]
      restored release_funpow [of n "(w, s)"] release_unbound [of "(w, s)"]
    by blast
qed

text \<open>
  The theorem at work: a name that does not resolve, from the unbound state; and a source
  that would close a cycle, from a state bound to another source.
\<close>

theorem acquire_failure_releases_witness:
  "be_resolve vanished_env ''Mask'' = None
   \<and> \<not> fst (acquire vanished_env ''Mask'' (no_refs, built))
   \<and> unbound built
   \<and> unbound (snd (snd (acquire vanished_env ''Mask'' (no_refs, built))))
   \<and> fst (snd (acquire vanished_env ''Mask'' (no_refs, built))) = no_refs
   \<and> be_resolve cycle_env ''Loop'' = Some 2 \<and> be_recursion cycle_env 2
   \<and> \<not> fst (acquire cycle_env ''Loop'' (refs_on_1, bound_to_1))
   \<and> unbound (snd (snd (acquire cycle_env ''Loop'' (refs_on_1, bound_to_1))))
   \<and> active_refs (fst (snd (acquire cycle_env ''Loop'' (refs_on_1, bound_to_1)))) 2 = 0
   \<and> (release ^^ 3) (refs_on_1, bound_to_1) = release (refs_on_1, bound_to_1)"
proof -
  have r: "be_resolve vanished_env ''Mask'' = None"
    by (simp add: vanished_env_def)
  have c: "be_resolve cycle_env ''Loop'' = Some 2 \<and> be_recursion cycle_env 2"
    by (simp add: cycle_env_def)
  have u: "unbound built"
    by (simp add: unbound_def built_def constructed_def)
  have h: "held (input_ac bound_to_1) 2 = 0" "active_refs refs_on_1 2 = 0"
    by (simp_all add: held_def bound_to_1_def refs_on_1_def)
  have n: "(3::nat) = Suc 2" by simp
  show ?thesis
    using acquire_failure_releases [of vanished_env "''Mask''" no_refs built 2]
      acquire_failure_releases [of cycle_env "''Loop''" refs_on_1 bound_to_1 2] r c u h
    unfolding n by simp
qed

text \<open>
  The claim as stated fails where the instance held a reference before the attempt: bound
  to source 1, with the only activity and visibility references on it, a failed
  acquisition lowers both counters of source 1 from 1 to 0.
\<close>

theorem acquire_failure_lowers_held_counts:
  "\<not> fst (acquire vanished_env ''Mask'' (refs_on_1, bound_to_1))
   \<and> active_refs refs_on_1 1 = 1
   \<and> active_refs (fst (snd (acquire vanished_env ''Mask'' (refs_on_1, bound_to_1)))) 1 = 0
   \<and> showing_refs refs_on_1 1 = 1
   \<and> showing_refs (fst (snd (acquire vanished_env ''Mask'' (refs_on_1, bound_to_1)))) 1 = 0"
  by (simp add: acquire_def vanished_env_def release_def hide_def deactivate_def
      drop_reference_def refs_on_1_def bound_to_1_def built_def constructed_def)

subsection \<open>update, save and the registered defaults\<close>

lemma find_or_insert_total:
  "\<exists>m' found. find_or_insert P c m = Inr (m', found) \<and> m' c = Some found
     \<and> (\<forall>c'. c' \<noteq> c \<longrightarrow> m' c' = m c')"
  by (simp add: find_or_insert_def split: option.splits)

lemma find_or_insert_found:
  "m c = Some found \<Longrightarrow> find_or_insert P c m = Inr (m, found)"
  by (simp add: find_or_insert_def)

lemma update_inputs_fst_translations:
  "vec4_ptr (fst (update_inputs P d n (channel_translations P) acc)) (channel_index c2) =
     to_float_t P (obs_data_get_double d (ab_key n (S_CHANNEL P c2)))"
  by (cases acc; cases c2) (simp_all add: channel_translations_def Let_def)

lemma update_channel_effect:
  "\<exists>s' cd. update_channel P d (c, n) s = Inr s' \<and> channels s' c = Some cd \<and> stored P d n cd
     \<and> (\<forall>c'. c' \<noteq> c \<longrightarrow> channels s' c' = channels s c')"
  using find_or_insert_total [of P c "channels s"]
  by (auto simp: update_channel_def Let_def stored_def update_inputs_fst_translations
      simp del: update_inputs.simps vec4_ptr.simps vec4_ptr_set.simps)

lemma update_channels_effect:
  "\<exists>s'. update_channels P d (channel_translations P) s = Inr s'
     \<and> (\<forall>c. \<exists>cd. channels s' c = Some cd \<and> stored P d (S_CHANNEL P c) cd)"
proof -
  obtain s1 cd1 where 1: "update_channel P d (Red, S_CHANNEL P Red) s = Inr s1"
    "channels s1 Red = Some cd1" "stored P d (S_CHANNEL P Red) cd1"
    using update_channel_effect [of P d Red "S_CHANNEL P Red" s] by blast
  obtain s2 cd2 where 2: "update_channel P d (Green, S_CHANNEL P Green) s1 = Inr s2"
    "channels s2 Green = Some cd2" "stored P d (S_CHANNEL P Green) cd2"
    "\<forall>c'. c' \<noteq> Green \<longrightarrow> channels s2 c' = channels s1 c'"
    using update_channel_effect [of P d Green "S_CHANNEL P Green" s1] by blast
  obtain s3 cd3 where 3: "update_channel P d (Blue, S_CHANNEL P Blue) s2 = Inr s3"
    "channels s3 Blue = Some cd3" "stored P d (S_CHANNEL P Blue) cd3"
    "\<forall>c'. c' \<noteq> Blue \<longrightarrow> channels s3 c' = channels s2 c'"
    using update_channel_effect [of P d Blue "S_CHANNEL P Blue" s2] by blast
  obtain s4 cd4 where 4: "update_channel P d (Alpha, S_CHANNEL P Alpha) s3 = Inr s4"
    "channels s4 Alpha = Some cd4" "stored P d (S_CHANNEL P Alpha) cd4"
    "\<forall>c'. c' \<noteq> Alpha \<longrightarrow> channels s4 c' = channels s3 c'"
    using update_channel_effect [of P d Alpha "S_CHANNEL P Alpha" s3] by blast
  have run: "update_channels P d (channel_translations P) s = Inr s4"
    using 1(1) 2(1) 3(1) 4(1) by (simp add: channel_translations_def)
  have "\<exists>cd. channels s4 c = Some cd \<and> stored P d (S_CHANNEL P c) cd" for c
    using 1 2 3 4 by (cases c) simp_all
  then show ?thesis using run by simp
qed

text \<open>
  \<^verbatim>\<open>update\<close> never throws, and it stores for every channel what it read for it.
\<close>

lemma update_stores:
  "\<exists>w' s'. update P e d ws = Inr (w', s')
     \<and> (\<forall>c. \<exists>cd. channels s' c = Some cd \<and> stored P d (S_CHANNEL P c) cd)"
proof -
  let ?ws1 = "if obs_data_get_string d ST_KEY_INPUT \<noteq> []
              then snd (acquire e (obs_data_get_string d ST_KEY_INPUT) ws) else release ws"
  obtain s1 where s1: "update_channels P d (channel_translations P) (snd ?ws1) = Inr s1"
    "\<forall>c. \<exists>cd. channels s1 c = Some cd \<and> stored P d (S_CHANNEL P c) cd"
    using update_channels_effect [of P d "snd ?ws1"] by blast
  have "update P e d ws
          = Inr (fst ?ws1, s1\<lparr>debug_texture := obs_data_get_int d ST_KEY_DEBUG_TEXTURE\<rparr>)"
    using s1(1) by (simp add: update_def Let_def)
  then show ?thesis
    using s1(2) by simp
qed

lemma agrees_write:
  "agrees m f K \<Longrightarrow> v = f k \<Longrightarrow> agrees (m(k \<mapsto> ItemDouble v)) f (insert k K)"
  by (simp add: agrees_def)

lemma agrees_other:
  "agrees m f K \<Longrightarrow> k \<notin> K \<Longrightarrow> agrees (m(k \<mapsto> x)) f K"
  by (auto simp: agrees_def)

lemma agrees_mono: "agrees m f K \<Longrightarrow> K' \<subseteq> K \<Longrightarrow> agrees m f K'"
  by (auto simp: agrees_def)

lemma agrees_get_double:
  "agrees (od_values d) f K \<Longrightarrow> k \<in> K \<Longrightarrow> obs_data_get_double d k = f k"
  by (simp add: agrees_def obs_data_get_double_def obs_data_item_def)

lemma save_inputs_agrees:
  assumes "agrees (od_values d) f K"
    and "\<forall>kv2\<in>set kvs. vec4_ptr vals (channel_index (fst kv2)) = f (ab_key n (snd kv2))"
  shows "agrees (od_values (save_inputs n kvs vals d)) f
           (K \<union> (\<lambda>kv2. ab_key n (snd kv2)) ` set kvs)"
  using assms
proof (induction kvs arbitrary: d K)
  case Nil
  then show ?case by simp
next
  case (Cons kv2 kvs)
  have "agrees (od_values (obs_data_set_double d (ab_key n (snd kv2))
           (vec4_ptr vals (channel_index (fst kv2))))) f (insert (ab_key n (snd kv2)) K)"
    using Cons.prems by (simp add: obs_data_set_double_def agrees_write)
  from Cons.IH [OF this] Cons.prems(2) show ?case by simp
qed

lemma set_channel_keys:
  "set (channel_keys n P) =
     insert (chv_key n) (insert (chm_key n)
       ((\<lambda>kv2. ab_key n (snd kv2)) ` set (channel_translations P)))"
  by (simp add: channel_keys_def)

lemma set_numeric_keys:
  "set (numeric_keys P) =
     set (channel_keys (S_CHANNEL P Red) P) \<union> set (channel_keys (S_CHANNEL P Green) P)
     \<union> set (channel_keys (S_CHANNEL P Blue) P) \<union> set (channel_keys (S_CHANNEL P Alpha) P)"
  by (auto simp: numeric_keys_def channel_translations_def)

lemma numeric_keys_mem:
  "chv_key (S_CHANNEL P c) \<in> set (numeric_keys P)"
  "chm_key (S_CHANNEL P c) \<in> set (numeric_keys P)"
  "ab_key (S_CHANNEL P c) (S_CHANNEL P c2) \<in> set (numeric_keys P)"
  by (cases c; cases c2; simp add: numeric_keys_def channel_translations_def channel_keys_def)+

lemma save_channel_agrees:
  assumes "agrees (od_values d) f K"
    and "channels s c = Some cd"
    and "cd_value cd = f (chv_key n)" "cd_scale cd = f (chm_key n)"
    and "\<forall>c2. vec4_ptr (cd_values cd) (channel_index c2) = f (ab_key n (S_CHANNEL P c2))"
  shows "\<exists>d'. save_channel P (c, n) (s, d) = Inr (s, d')
           \<and> agrees (od_values d') f (K \<union> set (channel_keys n P))"
proof -
  let ?d2 = "obs_data_set_double (obs_data_set_double d (chv_key n) (cd_value cd))
               (chm_key n) (cd_scale cd)"
  have a2: "agrees (od_values ?d2) f (insert (chm_key n) (insert (chv_key n) K))"
    using assms(1,3,4) by (simp add: obs_data_set_double_def agrees_write)
  have vals: "\<forall>kv2\<in>set (channel_translations P).
      vec4_ptr (cd_values cd) (channel_index (fst kv2)) = f (ab_key n (snd kv2))"
    using assms(5) by (simp add: channel_translations_def)
  have "agrees (od_values (save_inputs n (channel_translations P) (cd_values cd) ?d2)) f
          (insert (chm_key n) (insert (chv_key n) K)
             \<union> (\<lambda>kv2. ab_key n (snd kv2)) ` set (channel_translations P))"
    by (rule save_inputs_agrees [OF a2 vals])
  then have "agrees (od_values (save_inputs n (channel_translations P) (cd_values cd) ?d2)) f
          (K \<union> set (channel_keys n P))"
    by (rule agrees_mono) (auto simp: set_channel_keys)
  then show ?thesis
    using assms(2) by (simp add: save_channel_def find_or_insert_found Let_def)
qed

lemma save_channels_agrees:
  assumes st: "\<forall>c. \<exists>cd. channels s c = Some cd \<and> cd_value cd = f (chv_key (S_CHANNEL P c))
        \<and> cd_scale cd = f (chm_key (S_CHANNEL P c))
        \<and> (\<forall>c2. vec4_ptr (cd_values cd) (channel_index c2)
               = f (ab_key (S_CHANNEL P c) (S_CHANNEL P c2)))"
    and a0: "agrees (od_values d) f K"
  shows "\<exists>d'. save_channels P (channel_translations P) (s, d) = Inr (s, d')
           \<and> agrees (od_values d') f (K \<union> set (numeric_keys P))"
proof -
  have step: "agrees (od_values d0) f K0 \<Longrightarrow>
      \<exists>d'. save_channel P (c, S_CHANNEL P c) (s, d0) = Inr (s, d')
         \<and> agrees (od_values d') f (K0 \<union> set (channel_keys (S_CHANNEL P c) P))" for d0 K0 c
    using st save_channel_agrees [of d0 f K0 s c _ "S_CHANNEL P c" P] by metis
  obtain d1 where 1: "save_channel P (Red, S_CHANNEL P Red) (s, d) = Inr (s, d1)"
    "agrees (od_values d1) f (K \<union> set (channel_keys (S_CHANNEL P Red) P))"
    using step [OF a0, of Red] by blast
  obtain d2 where 2: "save_channel P (Green, S_CHANNEL P Green) (s, d1) = Inr (s, d2)"
    "agrees (od_values d2) f (K \<union> set (channel_keys (S_CHANNEL P Red) P)
        \<union> set (channel_keys (S_CHANNEL P Green) P))"
    using step [OF 1(2), of Green] by blast
  obtain d3 where 3: "save_channel P (Blue, S_CHANNEL P Blue) (s, d2) = Inr (s, d3)"
    "agrees (od_values d3) f (K \<union> set (channel_keys (S_CHANNEL P Red) P)
        \<union> set (channel_keys (S_CHANNEL P Green) P) \<union> set (channel_keys (S_CHANNEL P Blue) P))"
    using step [OF 2(2), of Blue] by blast
  obtain d4 where 4: "save_channel P (Alpha, S_CHANNEL P Alpha) (s, d3) = Inr (s, d4)"
    "agrees (od_values d4) f (K \<union> set (channel_keys (S_CHANNEL P Red) P)
        \<union> set (channel_keys (S_CHANNEL P Green) P) \<union> set (channel_keys (S_CHANNEL P Blue) P)
        \<union> set (channel_keys (S_CHANNEL P Alpha) P))"
    using step [OF 3(2), of Alpha] by blast
  have run: "save_channels P (channel_translations P) (s, d) = Inr (s, d4)"
    using 1(1) 2(1) 3(1) 4(1) by (simp add: channel_translations_def)
  have "agrees (od_values d4) f (K \<union> set (numeric_keys P))"
    using 4(2) by (rule agrees_mono) (auto simp: set_numeric_keys)
  with run show ?thesis by blast
qed

text \<open>
  What \<^verbatim>\<open>save\<close> writes after \<^verbatim>\<open>update\<close>: at every key of an offset, a scale or a
  weight, the value \<^verbatim>\<open>update\<close> read there, converted to \<^verbatim>\<open>float_t\<close> and nothing else.
\<close>

lemma save_after_update:
  "\<exists>w' s' d'. update P e d ws = Inr (w', s') \<and> save P name s' d0 = Inr (s', d')
     \<and> agrees (od_values d') (\<lambda>k. to_float_t P (obs_data_get_double d k))
          (set (numeric_keys P))"
proof -
  obtain w' s' where u: "update P e d ws = Inr (w', s')"
    "\<forall>c. \<exists>cd. channels s' c = Some cd \<and> stored P d (S_CHANNEL P c) cd"
    using update_stores [of P e d ws] by blast
  have st: "\<forall>c. \<exists>cd. channels s' c = Some cd
        \<and> cd_value cd = to_float_t P (obs_data_get_double d (chv_key (S_CHANNEL P c)))
        \<and> cd_scale cd = to_float_t P (obs_data_get_double d (chm_key (S_CHANNEL P c)))
        \<and> (\<forall>c2. vec4_ptr (cd_values cd) (channel_index c2)
               = to_float_t P (obs_data_get_double d (ab_key (S_CHANNEL P c) (S_CHANNEL P c2))))"
    using u(2) unfolding stored_def by simp
  let ?d0 = "case name of Some n \<Rightarrow> obs_data_set_string d0 ST_KEY_INPUT n | None \<Rightarrow> d0"
  have a0: "agrees (od_values ?d0) (\<lambda>k. to_float_t P (obs_data_get_double d k)) {}"
    by (simp add: agrees_def)
  from save_channels_agrees
    [of s' "\<lambda>k. to_float_t P (obs_data_get_double d k)" P ?d0 "{}", OF st a0]
  have "\<exists>d'. save P name s' d0 = Inr (s', d')
          \<and> agrees (od_values d') (\<lambda>k. to_float_t P (obs_data_get_double d k))
               (set (numeric_keys P))"
    by (simp add: save_def)
  with u(1) show ?thesis by blast
qed

lemma default_of_keys:
  "default_of (chv_key n) = 1" "default_of (chm_key n) = 1" "default_of (ab_key n n2) = 0"
  by (simp_all add: default_of_def chv_key_def chm_key_def ab_key_def
      ST_KEY_CHANNEL_VALUE_def ST_KEY_CHANNEL_MULTIPLIER_def ST_KEY_CHANNEL_INPUT_def)

lemma defaults_inputs_agrees:
  "agrees (od_defaults d) default_of K \<Longrightarrow>
   agrees (od_defaults (defaults_inputs n kvs d)) default_of
     (K \<union> (\<lambda>kv2. ab_key n (snd kv2)) ` set kvs)"
proof (induction kvs arbitrary: d K)
  case Nil
  then show ?case by simp
next
  case (Cons kv2 kvs)
  have "agrees (od_defaults (obs_data_set_default_double d (ab_key n (snd kv2)) 0)) default_of
          (insert (ab_key n (snd kv2)) K)"
    using Cons.prems
    by (simp add: obs_data_set_default_double_def agrees_write default_of_keys)
  from Cons.IH [OF this] show ?case by simp
qed

lemma defaults_channels_agrees:
  "agrees (od_defaults d) default_of K \<Longrightarrow>
   agrees (od_defaults (defaults_channels P kvs d)) default_of
     (K \<union> (\<Union>kv\<in>set kvs. set (channel_keys (snd kv) P)))"
proof (induction kvs arbitrary: d K)
  case Nil
  then show ?case by simp
next
  case (Cons kv kvs)
  let ?d2 = "obs_data_set_default_double (obs_data_set_default_double d (chv_key (snd kv)) 1)
               (chm_key (snd kv)) 1"
  have "agrees (od_defaults ?d2) default_of
          (insert (chm_key (snd kv)) (insert (chv_key (snd kv)) K))"
    using Cons.prems
    by (simp add: obs_data_set_default_double_def agrees_write default_of_keys)
  then have "agrees (od_defaults (defaults_inputs (snd kv) (channel_translations P) ?d2))
     default_of
     (insert (chm_key (snd kv)) (insert (chv_key (snd kv)) K)
        \<union> (\<lambda>kv2. ab_key (snd kv) (snd kv2)) ` set (channel_translations P))"
    by (rule defaults_inputs_agrees)
  from Cons.IH [OF this]
  have "agrees (od_defaults (defaults_channels P (kv # kvs) d)) default_of
     (insert (chm_key (snd kv)) (insert (chv_key (snd kv)) K)
        \<union> (\<lambda>kv2. ab_key (snd kv) (snd kv2)) ` set (channel_translations P)
        \<union> (\<Union>kv\<in>set kvs. set (channel_keys (snd kv) P)))"
    by (simp add: Let_def)
  then show ?case
    by (rule agrees_mono) (auto simp: set_channel_keys)
qed

lemma defaults_inputs_values: "od_values (defaults_inputs n kvs d) = od_values d"
  by (induction kvs arbitrary: d) (simp_all add: obs_data_set_default_double_def)

lemma defaults_channels_values: "od_values (defaults_channels P kvs d) = od_values d"
  by (induction kvs arbitrary: d)
    (simp_all add: obs_data_set_default_double_def defaults_inputs_values Let_def)

lemma get_defaults2_values: "od_values (get_defaults2 P d) = od_values d"
  by (simp add: get_defaults2_def Let_def obs_data_set_default_int_def defaults_channels_values)

lemma numeric_keys_head: "k \<in> set (numeric_keys P) \<Longrightarrow> hd k = CHR ''F''"
  by (auto simp: numeric_keys_def channel_translations_def channel_keys_def chv_key_def
      chm_key_def ab_key_def ST_KEY_CHANNEL_VALUE_def ST_KEY_CHANNEL_MULTIPLIER_def
      ST_KEY_CHANNEL_INPUT_def)

lemma debug_key_not_numeric: "ST_KEY_DEBUG_TEXTURE \<notin> set (numeric_keys P)"
  using numeric_keys_head [of ST_KEY_DEBUG_TEXTURE P] by (auto simp: ST_KEY_DEBUG_TEXTURE_def)

lemma get_defaults2_agrees:
  "agrees (od_defaults (get_defaults2 P d)) default_of (set (numeric_keys P))"
proof -
  let ?d1 = "obs_data_set_default_int d ST_KEY_CHANNEL (int (channel_index Red))"
  have "agrees (od_defaults ?d1) default_of {}"
    by (simp add: agrees_def)
  from defaults_channels_agrees [OF this, of P "channel_translations P"]
  have "agrees (od_defaults (defaults_channels P (channel_translations P) ?d1)) default_of
          (set (numeric_keys P))"
    by (simp add: numeric_keys_def)
  then show ?thesis
    by (simp add: get_defaults2_def Let_def obs_data_set_default_int_def agrees_other
        debug_key_not_numeric)
qed

lemma absent_key_default:
  assumes "k \<in> set (numeric_keys P)" "od_values d k = None"
  shows "obs_data_get_double (get_defaults2 P d) k = default_of k"
  using get_defaults2_agrees [of P d] assms
  by (simp add: agrees_def obs_data_get_double_def obs_data_item_def get_defaults2_values)

lemma update_defaults:
  "\<exists>w' s'. update P e (get_defaults2 P d) ws = Inr (w', s') \<and>
      (\<forall>c. \<exists>cd. channels s' c = Some cd \<and>
         (od_values d (chv_key (S_CHANNEL P c)) = None \<longrightarrow> cd_value cd = to_float_t P 1) \<and>
         (od_values d (chm_key (S_CHANNEL P c)) = None \<longrightarrow> cd_scale cd = to_float_t P 1) \<and>
         (\<forall>c2. od_values d (ab_key (S_CHANNEL P c) (S_CHANNEL P c2)) = None \<longrightarrow>
               vec4_ptr (cd_values cd) (channel_index c2) = to_float_t P 0))"
proof -
  obtain w' s' where u: "update P e (get_defaults2 P d) ws = Inr (w', s')"
    "\<forall>c. \<exists>cd. channels s' c = Some cd \<and> stored P (get_defaults2 P d) (S_CHANNEL P c) cd"
    using update_stores [of P e "get_defaults2 P d" ws] by blast
  have "\<exists>cd. channels s' c = Some cd \<and>
         (od_values d (chv_key (S_CHANNEL P c)) = None \<longrightarrow> cd_value cd = to_float_t P 1) \<and>
         (od_values d (chm_key (S_CHANNEL P c)) = None \<longrightarrow> cd_scale cd = to_float_t P 1) \<and>
         (\<forall>c2. od_values d (ab_key (S_CHANNEL P c) (S_CHANNEL P c2)) = None \<longrightarrow>
               vec4_ptr (cd_values cd) (channel_index c2) = to_float_t P 0)" for c
  proof -
    obtain cd where cd: "channels s' c = Some cd"
      "stored P (get_defaults2 P d) (S_CHANNEL P c) cd"
      using u(2) by blast
    show ?thesis
      using cd by (auto simp: stored_def absent_key_default numeric_keys_mem default_of_keys)
  qed
  with u(1) show ?thesis by blast
qed

lemma demo_float_exact:
  "to_float_t demo_platform 0 = 0" "to_float_t demo_platform 1 = 1"
  "to_float_t demo_platform 250 = 250" "to_float_t demo_platform (- (2001 / 2)) = - (2001 / 2)"
  "to_float_t demo_platform (1 / 4) = 1 / 4"
  by (simp_all add: demo_platform_def)

text \<open>
  C2, as the code has it. \<^verbatim>\<open>update\<close> is total: for every platform, host, settings and
  state it returns a state and never the exception of its one \<^verbatim>\<open>throw\<close>. On settings
  that carry the defaults \<^verbatim>\<open>get_defaults2\<close> registers, a key the user never set yields
  the registered default, converted to \<^verbatim>\<open>float_t\<close>: 1.0 for the offset of the channel
  (not zero), 1.0 for its scale, and 0.0 for each of its four weights.
\<close>

theorem update_total_absent_keys_take_defaults:
  "(\<exists>ws'. update P e d ws = Inr ws') \<and>
   (\<exists>w' s'. update P e (get_defaults2 P d) ws = Inr (w', s') \<and>
      (\<forall>c. \<exists>cd. channels s' c = Some cd \<and>
         (od_values d (chv_key (S_CHANNEL P c)) = None \<longrightarrow> cd_value cd = to_float_t P 1) \<and>
         (od_values d (chm_key (S_CHANNEL P c)) = None \<longrightarrow> cd_scale cd = to_float_t P 1) \<and>
         (\<forall>c2. od_values d (ab_key (S_CHANNEL P c) (S_CHANNEL P c2)) = None \<longrightarrow>
               vec4_ptr (cd_values cd) (channel_index c2) = to_float_t P 0)))"
proof
  show "\<exists>ws'. update P e d ws = Inr ws'"
    using update_stores [of P e d ws] by auto
next
  show "\<exists>w' s'. update P e (get_defaults2 P d) ws = Inr (w', s') \<and>
      (\<forall>c. \<exists>cd. channels s' c = Some cd \<and>
         (od_values d (chv_key (S_CHANNEL P c)) = None \<longrightarrow> cd_value cd = to_float_t P 1) \<and>
         (od_values d (chm_key (S_CHANNEL P c)) = None \<longrightarrow> cd_scale cd = to_float_t P 1) \<and>
         (\<forall>c2. od_values d (ab_key (S_CHANNEL P c) (S_CHANNEL P c2)) = None \<longrightarrow>
               vec4_ptr (cd_values cd) (channel_index c2) = to_float_t P 0))"
    by (rule update_defaults)
qed

text \<open>The theorem at work on settings in which the user set nothing.\<close>

theorem update_total_absent_keys_take_defaults_witness:
  "od_values empty_settings (chv_key (S_CHANNEL demo_platform Red)) = None
   \<and> od_values empty_settings (chm_key (S_CHANNEL demo_platform Red)) = None
   \<and> od_values empty_settings
        (ab_key (S_CHANNEL demo_platform Red) (S_CHANNEL demo_platform Blue)) = None
   \<and> (\<exists>w' s' cd. update demo_platform vanished_env (get_defaults2 demo_platform empty_settings)
                    (no_refs, built) = Inr (w', s')
        \<and> channels s' Red = Some cd \<and> cd_value cd = 1 \<and> cd_scale cd = 1
        \<and> vec4_ptr (cd_values cd) (channel_index Blue) = 0)"
proof -
  have absent: "od_values empty_settings k = None" for k
    by (simp add: empty_settings_def)
  obtain w' s' where u:
    "update demo_platform vanished_env (get_defaults2 demo_platform empty_settings)
       (no_refs, built) = Inr (w', s')"
    "\<forall>c. \<exists>cd. channels s' c = Some cd \<and>
         (od_values empty_settings (chv_key (S_CHANNEL demo_platform c)) = None
            \<longrightarrow> cd_value cd = to_float_t demo_platform 1) \<and>
         (od_values empty_settings (chm_key (S_CHANNEL demo_platform c)) = None
            \<longrightarrow> cd_scale cd = to_float_t demo_platform 1) \<and>
         (\<forall>c2. od_values empty_settings
                 (ab_key (S_CHANNEL demo_platform c) (S_CHANNEL demo_platform c2)) = None \<longrightarrow>
               vec4_ptr (cd_values cd) (channel_index c2) = to_float_t demo_platform 0)"
    using update_total_absent_keys_take_defaults
      [of demo_platform vanished_env empty_settings "(no_refs, built)"]
    by blast
  obtain cd where cd: "channels s' Red = Some cd"
    "cd_value cd = to_float_t demo_platform 1" "cd_scale cd = to_float_t demo_platform 1"
    "vec4_ptr (cd_values cd) (channel_index Blue) = to_float_t demo_platform 0"
    using u(2) absent by blast
  show ?thesis
    using u(1) cd absent by (simp add: demo_float_exact del: vec4_ptr.simps)
qed

text \<open>
  The claim as stated fails at the offset: on settings in which the user set nothing, with
  the registered defaults, \<^verbatim>\<open>update\<close> stores the offset 1 for the red channel, not 0.
\<close>

theorem update_absent_offset_is_one:
  "od_values empty_settings (chv_key (S_CHANNEL demo_platform Red)) = None
   \<and> map_option cd_value
       (channels (snd (projr (update demo_platform vanished_env
          (get_defaults2 demo_platform empty_settings) (no_refs, built)))) Red) = Some 1
   \<and> map_option cd_value
       (channels (snd (projr (update demo_platform vanished_env
          (get_defaults2 demo_platform empty_settings) (no_refs, built)))) Red) \<noteq> Some 0"
proof -
  have absent: "od_values empty_settings k = None" for k
    by (simp add: empty_settings_def)
  obtain w' s' where u:
    "update demo_platform vanished_env (get_defaults2 demo_platform empty_settings)
       (no_refs, built) = Inr (w', s')"
    "\<forall>c. \<exists>cd. channels s' c = Some cd \<and>
         (od_values empty_settings (chv_key (S_CHANNEL demo_platform c)) = None
            \<longrightarrow> cd_value cd = to_float_t demo_platform 1) \<and>
         (od_values empty_settings (chm_key (S_CHANNEL demo_platform c)) = None
            \<longrightarrow> cd_scale cd = to_float_t demo_platform 1) \<and>
         (\<forall>c2. od_values empty_settings
                 (ab_key (S_CHANNEL demo_platform c) (S_CHANNEL demo_platform c2)) = None \<longrightarrow>
               vec4_ptr (cd_values cd) (channel_index c2) = to_float_t demo_platform 0)"
    using update_defaults [of demo_platform vanished_env empty_settings "(no_refs, built)"]
    by blast
  obtain cd where cd: "channels s' Red = Some cd" "cd_value cd = to_float_t demo_platform 1"
    using u(2) absent by blast
  show ?thesis
    using u(1) cd absent by (simp add: demo_float_exact)
qed

text \<open>
  C3. For every platform, host and state, and for all settings whose sixteen weights, four
  offsets and four scales are single-precision values (the conversion to \<^verbatim>\<open>float_t\<close>
  leaves them as they are), \<^verbatim>\<open>update\<close> followed by \<^verbatim>\<open>save\<close> returns, and the settings
  written hold at each of the 24 keys exactly the value read there. No bound on the values
  is assumed: nothing is clamped.
\<close>

theorem save_update_round_trip:
  assumes "\<forall>k\<in>set (numeric_keys P).
             to_float_t P (obs_data_get_double d k) = obs_data_get_double d k"
  shows "\<exists>w' s' d'. update P e d ws = Inr (w', s') \<and> save P name s' d0 = Inr (s', d')
           \<and> (\<forall>k\<in>set (numeric_keys P). obs_data_get_double d' k = obs_data_get_double d k)"
proof -
  obtain w' s' d' where r: "update P e d ws = Inr (w', s')" "save P name s' d0 = Inr (s', d')"
    "agrees (od_values d') (\<lambda>k. to_float_t P (obs_data_get_double d k)) (set (numeric_keys P))"
    using save_after_update [of P e d ws name d0] by blast
  have "obs_data_get_double d' k = obs_data_get_double d k" if "k \<in> set (numeric_keys P)" for k
    using agrees_get_double [OF r(3) that] assms that by simp
  with r(1,2) show ?thesis by blast
qed

lemma map_of_keyed:
  "map_of (map (\<lambda>k. (k, f k)) xs) k = (if k \<in> set xs then Some (f k) else None)"
  by (induction xs) simp_all

lemma demo_settings_get:
  "k \<in> set (numeric_keys demo_platform) \<Longrightarrow> obs_data_get_double demo_settings k = demo_value k"
  by (simp add: demo_settings_def obs_data_get_double_def obs_data_item_def map_of_keyed)

lemma demo_value_exact: "to_float_t demo_platform (demo_value k) = demo_value k"
  by (simp add: demo_value_def demo_float_exact)

lemma demo_value_keys:
  "demo_value (chv_key n) = 250" "demo_value (chm_key n) = - (2001 / 2)"
  "demo_value (ab_key n n2) = 1 / 4"
  by (simp_all add: demo_value_def chv_key_def chm_key_def ab_key_def
      ST_KEY_CHANNEL_VALUE_def ST_KEY_CHANNEL_MULTIPLIER_def ST_KEY_CHANNEL_INPUT_def)

lemma demo_names:
  "S_CHANNEL demo_platform Red = ''Channel.Red''" "S_CHANNEL demo_platform Green = ''Channel.Green''"
  "S_CHANNEL demo_platform Blue = ''Channel.Blue''" "S_CHANNEL demo_platform Alpha = ''Channel.Alpha''"
  by (simp_all add: demo_platform_def)

text \<open>
  The theorem at work: offsets of 250 and scales of -1000.5, outside the range of the
  sliders, come back as they went in.
\<close>

theorem save_update_round_trip_witness:
  "list_all (\<lambda>k. to_float_t demo_platform (obs_data_get_double demo_settings k)
                    = obs_data_get_double demo_settings k) (numeric_keys demo_platform)
   \<and> (\<exists>w' s' d'. update demo_platform vanished_env demo_settings (no_refs, built)
                    = Inr (w', s')
        \<and> save demo_platform None s' empty_settings = Inr (s', d')
        \<and> obs_data_get_double d' (chv_key ''Channel.Red'') = 250
        \<and> obs_data_get_double d' (chm_key ''Channel.Green'') = - (2001 / 2)
        \<and> obs_data_get_double d' (ab_key ''Channel.Blue'' ''Channel.Alpha'') = 1 / 4)"
proof -
  have h: "\<forall>k\<in>set (numeric_keys demo_platform).
      to_float_t demo_platform (obs_data_get_double demo_settings k)
        = obs_data_get_double demo_settings k"
    by (simp add: demo_settings_get demo_value_exact)
  obtain w' s' d' where r:
    "update demo_platform vanished_env demo_settings (no_refs, built) = Inr (w', s')"
    "save demo_platform None s' empty_settings = Inr (s', d')"
    "\<forall>k\<in>set (numeric_keys demo_platform).
       obs_data_get_double d' k = obs_data_get_double demo_settings k"
    using save_update_round_trip
      [OF h, of vanished_env "(no_refs, built)" None empty_settings]
    by blast
  have m: "chv_key ''Channel.Red'' \<in> set (numeric_keys demo_platform)"
    "chm_key ''Channel.Green'' \<in> set (numeric_keys demo_platform)"
    "ab_key ''Channel.Blue'' ''Channel.Alpha'' \<in> set (numeric_keys demo_platform)"
    using numeric_keys_mem(1) [of demo_platform Red] numeric_keys_mem(2) [of demo_platform Green]
      numeric_keys_mem(3) [of demo_platform Blue Alpha]
    by (simp_all only: demo_names)
  have "obs_data_get_double d' (chv_key ''Channel.Red'') = 250"
    "obs_data_get_double d' (chm_key ''Channel.Green'') = - (2001 / 2)"
    "obs_data_get_double d' (ab_key ''Channel.Blue'' ''Channel.Alpha'') = 1 / 4"
    using r(3) m by (simp_all add: demo_settings_get demo_value_keys)
  with h r(1,2) show ?thesis unfolding list_all_iff by blast
qed

subsection \<open>video_render\<close>

lemmas render_prims =
  call_def gs_set_linear_srgb_def gs_enable_framebuffer_srgb_def foreign_render_def upd_inst_def

text \<open>A base capture that no exception leaves ends with the flags as it found them.\<close>

lemma gs_written_back:
  "(g\<lparr>linear_srgb := linear_srgb g0\<rparr>)\<lparr>framebuffer_srgb := framebuffer_srgb g0\<rparr> = (g0 :: gs_state)"
  by (cases g; cases g0) simp

lemma capture_base_gs:
  assumes "fst (capture_base e r) = None"
  shows "rs_gs (snd (capture_base e r)) = rs_gs r"
proof -
  let ?r3 = "gs_enable_framebuffer_srgb False
               (gs_set_linear_srgb (base_srgb (rs_inst (upd_inst ensure_base_rt r)))
                  (upd_inst ensure_base_rt r))"
  have "fst (base_begin e ?r3) = None"
    using assms by (simp add: capture_base_def Let_def split: option.splits)
  then have "capture_base e r
      = (None, gs_enable_framebuffer_srgb (framebuffer_srgb (rs_gs r))
                 (gs_set_linear_srgb (linear_srgb (rs_gs r)) (snd (base_begin e ?r3))))"
    by (simp add: capture_base_def Let_def upd_inst_def)
  then show ?thesis
    by (simp add: gs_set_linear_srgb_def gs_enable_framebuffer_srgb_def gs_written_back)
qed

lemma capture_input_gs: "rs_gs (capture_input e i r) = rs_gs r"
  by (simp add: capture_input_def input_try_def render_prims Let_def split: outcome.splits)

lemma render_final_gs: "rs_gs (render_final e r) = rs_gs r"
  by (simp add: render_final_def final_try_def render_prims Let_def split: outcome.splits)

lemma base_try_escapes:
  "fst (base_try e r) = Some x \<longleftrightarrow>
     re_handler_end e = Some x \<and> (\<forall>t. re_base_capture e \<noteq> Captured t)"
  by (cases "re_base_capture e"; cases "re_handler_end e")
    (simp_all add: base_try_def base_handler_def Let_def)

lemma base_begin_escapes:
  "fst (base_begin e r) = Some x \<longleftrightarrow>
     re_begin e \<and> re_handler_end e = Some x \<and> (\<forall>t. re_base_capture e \<noteq> Captured t)"
  by (simp add: base_begin_def Let_def base_try_escapes)

lemma fst_pass_exception:
  "fst (case fst p of Some x \<Rightarrow> (Some x, f x) | None \<Rightarrow> (None, g)) = fst p"
  by (cases "fst p") simp_all

lemma capture_base_escapes:
  "fst (capture_base e r) = Some x \<longleftrightarrow>
     re_begin e \<and> re_handler_end e = Some x \<and> (\<forall>t. re_base_capture e \<noteq> Captured t)"
  by (simp add: capture_base_def Let_def fst_pass_exception base_begin_escapes)

text \<open>
  C9. The flags are not restored on every exit path of the base capture. After a tick with
  an sRGB base, in a graphics context with framebuffer sRGB on and linear sRGB off: the
  render target fails to start, the handler calls \<^verbatim>\<open>process_filter_end\<close>, and that call
  throws. The exception leaves the capture, and \<^verbatim>\<open>video_render\<close> with it, past the two
  statements that restore the flags: framebuffer sRGB stays off and linear sRGB on, as the
  capture set them. The source's rendering itself leaves the flags as it found them.
\<close>

theorem base_capture_escape_skips_flag_restore:
  "rs_gs (tick srgb_tick fresh) = \<lparr>framebuffer_srgb = True, linear_srgb = False\<rparr>
   \<and> fst (capture_base
        (ok_env\<lparr>re_base_capture := Throws_at_render StdException,
                 re_handler_end := Some StdException\<rparr>) (tick srgb_tick fresh))
       = Some StdException
   \<and> rs_gs (snd (capture_base
        (ok_env\<lparr>re_base_capture := Throws_at_render StdException,
                 re_handler_end := Some StdException\<rparr>) (tick srgb_tick fresh)))
       = \<lparr>framebuffer_srgb = False, linear_srgb = True\<rparr>
   \<and> fst (video_render
        (ok_env\<lparr>re_base_capture := Throws_at_render StdException,
                 re_handler_end := Some StdException\<rparr>) (tick srgb_tick fresh))
       = Escaped StdException
   \<and> rs_gs (snd (video_render
        (ok_env\<lparr>re_base_capture := Throws_at_render StdException,
                 re_handler_end := Some StdException\<rparr>) (tick srgb_tick fresh)))
       = \<lparr>framebuffer_srgb = False, linear_srgb = True\<rparr>"
proof -
  let ?e = "ok_env\<lparr>re_base_capture := Throws_at_render StdException,
                    re_handler_end := Some StdException\<rparr>"
  let ?r = "tick srgb_tick fresh"
  have s: "rs_gs ?r = \<lparr>framebuffer_srgb = True, linear_srgb = False\<rparr>"
    "\<not> have_base (rs_inst ?r)" "base_srgb (rs_inst ?r)" "input (rs_inst ?r) = None"
    by (simp_all add: tick_def upd_inst_def video_tick_def tick_input_def tick_base_def
        lock_input_def fresh_def built_def constructed_def srgb_tick_def Let_def)
  have c: "fst (capture_base ?e ?r) = Some StdException"
    by (simp add: capture_base_escapes ok_env_def)
  have g: "rs_gs (snd (capture_base ?e ?r)) = \<lparr>framebuffer_srgb = False, linear_srgb = True\<rparr>"
    using s(3)
    by (simp add: capture_base_def base_begin_def base_try_def base_handler_def render_prims
        ensure_base_rt_def Let_def ok_env_def)
  have n: "\<not> render_guard ?e ?r"
    using s(4) by (simp add: render_guard_def lock_input_def ok_env_def)
  have v: "video_render ?e ?r = (Escaped StdException, snd (capture_base ?e ?r))"
    using n c s(2) by (simp add: video_render_def stage_base_def)
  show ?thesis
    using s(1) c g by (simp add: v)
qed

text \<open>
  C7. When the target has no width or no height, or a bound input that locks has no width
  or no height, \<^verbatim>\<open>video_render\<close> returns the skipped result; the instance, with its
  three validity flags, and the graphics flags are as before, and the one call made is the
  one that tells the host to skip the filter.
\<close>

theorem zero_dimension_skips:
  assumes "re_width e = 0 \<or> re_height e = 0
           \<or> (lock_input (re_input_alive e) (rs_inst r) \<noteq> None
               \<and> (re_input_width e = 0 \<or> re_input_height e = 0))"
  shows "fst (video_render e r) = Skipped
         \<and> rs_inst (snd (video_render e r)) = rs_inst r
         \<and> rs_gs (snd (video_render e r)) = rs_gs r
         \<and> rs_calls (snd (video_render e r)) = rs_calls r @ [SkipVideoFilter]"
proof -
  have "render_guard e r"
    using assms by (auto simp: render_guard_def)
  then show ?thesis
    by (simp add: video_render_def call_def)
qed

theorem zero_dimension_skips_witness:
  "re_width (ok_env\<lparr>re_width := 0\<rparr>) = 0
   \<and> fst (video_render (ok_env\<lparr>re_width := 0\<rparr>) fresh) = Skipped
   \<and> rs_inst (snd (video_render (ok_env\<lparr>re_width := 0\<rparr>) fresh)) = built
   \<and> lock_input (re_input_alive (ok_env\<lparr>re_input_height := 0\<rparr>)) (rs_inst fresh_bound) = Some 7
   \<and> re_input_height (ok_env\<lparr>re_input_height := 0\<rparr>) = 0
   \<and> fst (video_render (ok_env\<lparr>re_input_height := 0\<rparr>) fresh_bound) = Skipped
   \<and> rs_gs (snd (video_render (ok_env\<lparr>re_input_height := 0\<rparr>) fresh_bound)) = rs_gs fresh_bound
   \<and> rs_calls (snd (video_render (ok_env\<lparr>re_input_height := 0\<rparr>) fresh_bound))
       = [SkipVideoFilter]"
proof -
  have a: "re_width (ok_env\<lparr>re_width := 0\<rparr>) = 0"
    "re_input_height (ok_env\<lparr>re_input_height := 0\<rparr>) = 0"
    "lock_input (re_input_alive (ok_env\<lparr>re_input_height := 0\<rparr>)) (rs_inst fresh_bound) = Some 7"
    by (simp_all add: ok_env_def lock_input_def fresh_bound_def fresh_def)
  have c: "rs_calls fresh_bound = []" "rs_inst fresh = built"
    by (simp_all add: fresh_bound_def fresh_def)
  show ?thesis
    using zero_dimension_skips [of "ok_env\<lparr>re_width := 0\<rparr>" fresh]
      zero_dimension_skips [of "ok_env\<lparr>re_input_height := 0\<rparr>" fresh_bound] a c
    by simp
qed

text \<open>
  C4. A capture that fails while the texture is fetched from the render target leaves the
  slot marked valid without a texture recorded: \<^verbatim>\<open>_have_base = true\<close> (and
  \<^verbatim>\<open>_have_input = true\<close>) is set before \<^verbatim>\<open>get_texture\<close> is called, and the handlers
  return. The mixing pass, which fetches the texture first, leaves its slot invalid at the
  same failure.
\<close>

theorem capture_failing_at_get_texture_marks_valid:
  "fst (capture_base
       (ok_env\<lparr>re_base_capture := Throws_at_get_texture StdException\<rparr>) fresh) = None
   \<and> have_base (rs_inst (snd (capture_base
       (ok_env\<lparr>re_base_capture := Throws_at_get_texture StdException\<rparr>) fresh))) = True
   \<and> base_tex (rs_inst (snd (capture_base
       (ok_env\<lparr>re_base_capture := Throws_at_get_texture StdException\<rparr>) fresh))) = None
   \<and> have_input (rs_inst (capture_input
       (ok_env\<lparr>re_input_capture := Throws_at_get_texture StdException\<rparr>) 7 fresh_bound)) = True
   \<and> input_tex (rs_inst (capture_input
       (ok_env\<lparr>re_input_capture := Throws_at_get_texture StdException\<rparr>) 7 fresh_bound)) = None
   \<and> have_final (rs_inst (render_final
       (ok_env\<lparr>re_final_render := Throws_at_get_texture StdException\<rparr>) fresh)) = False"
  by (simp add: capture_base_def base_begin_def base_try_def base_handler_def ensure_base_rt_def
      capture_input_def input_try_def render_final_def final_try_def render_prims Let_def
      ok_env_def fresh_def fresh_bound_def built_def constructed_def)

lemmas stage_defs =
  stage_base_def capture_base_def base_begin_def base_try_def base_handler_def ensure_base_rt_def
  stage_input_def capture_input_def input_try_def alias_base_def
  stage_final_def render_final_def final_try_def

lemma present_inst: "rs_inst (snd (present e r)) = rs_inst r"
  by (simp add: present_def render_prims Let_def split: option.splits)

text \<open>When the end of \<^verbatim>\<open>video_render\<close> draws, what it draws, and what it does otherwise.\<close>

lemma present_draws_iff:
  "fst (present e r) = Drawn \<longleftrightarrow>
     have_final (rs_inst r) \<and> (\<exists>t. final_tex (rs_inst r) = Some t \<and> t \<noteq> 0) \<and> re_image_param e"
  by (auto simp: present_def Let_def split: option.splits)

lemma present_drawn:
  "fst (present e r) = Drawn \<Longrightarrow>
   \<exists>t. final_tex (rs_inst r) = Some t \<and> t \<noteq> 0
       \<and> rs_calls (snd (present e r)) = rs_calls r @ [DrawSprite t (linear_srgb (rs_gs r))]"
  by (auto simp: present_def render_prims Let_def split: option.splits if_splits)

lemma present_skipped:
  "fst (present e r) = Skipped \<Longrightarrow> last (rs_calls (snd (present e r))) = SkipVideoFilter"
  by (auto simp: present_def render_prims Let_def split: option.splits if_splits)

lemma present_undefined_iff:
  "fst (present e r) = Undefined \<longleftrightarrow> have_final (rs_inst r) \<and> final_tex (rs_inst r) = None"
  by (auto simp: present_def Let_def split: option.splits)

lemma present_no_escape: "fst (present e r) \<noteq> Escaped x"
  by (auto simp: present_def Let_def split: option.splits)

lemma debug_override_slots:
  "have_base (debug_override s) = have_base s" "base_tex (debug_override s) = base_tex s"
  "have_input (debug_override s) = have_input s" "input_tex (debug_override s) = input_tex s"
  by (simp_all add: debug_override_def)

lemma base_handler_frame:
  "rs_inst (snd (base_handler e r)) = rs_inst r"
  by (simp add: base_handler_def render_prims Let_def split: option.splits)

lemma base_try_frame:
  "debug_texture (rs_inst (snd (base_try e r))) = debug_texture (rs_inst r)"
  "input (rs_inst (snd (base_try e r))) = input (rs_inst r)"
  "have_input (rs_inst (snd (base_try e r))) = have_input (rs_inst r)"
  "input_tex (rs_inst (snd (base_try e r))) = input_tex (rs_inst r)"
  "input_color_space (rs_inst (snd (base_try e r))) = input_color_space (rs_inst r)"
  "input_color_format (rs_inst (snd (base_try e r))) = input_color_format (rs_inst r)"
  "have_final (rs_inst (snd (base_try e r))) = have_final (rs_inst r)"
  "final_tex (rs_inst (snd (base_try e r))) = final_tex (rs_inst r)"
  "base_srgb (rs_inst (snd (base_try e r))) = base_srgb (rs_inst r)"
  "input_srgb (rs_inst (snd (base_try e r))) = input_srgb (rs_inst r)"
  "base_color_space (rs_inst (snd (base_try e r))) = base_color_space (rs_inst r)"
  "base_color_format (rs_inst (snd (base_try e r))) = base_color_format (rs_inst r)"
  by (simp_all add: base_try_def base_handler_frame render_prims Let_def split: outcome.splits)

lemma capture_base_inst:
  "rs_inst (snd (capture_base e r))
     = rs_inst (snd (base_begin e
         (gs_enable_framebuffer_srgb False
            (gs_set_linear_srgb (base_srgb (rs_inst (upd_inst ensure_base_rt r)))
               (upd_inst ensure_base_rt r)))))"
  by (simp add: capture_base_def Let_def render_prims split: option.splits)

lemma stage_base_frame:
  "debug_texture (rs_inst (snd (stage_base e r))) = debug_texture (rs_inst r)"
  "input (rs_inst (snd (stage_base e r))) = input (rs_inst r)"
  "have_input (rs_inst (snd (stage_base e r))) = have_input (rs_inst r)"
  "input_tex (rs_inst (snd (stage_base e r))) = input_tex (rs_inst r)"
  "input_color_space (rs_inst (snd (stage_base e r))) = input_color_space (rs_inst r)"
  "input_color_format (rs_inst (snd (stage_base e r))) = input_color_format (rs_inst r)"
  "have_final (rs_inst (snd (stage_base e r))) = have_final (rs_inst r)"
  "final_tex (rs_inst (snd (stage_base e r))) = final_tex (rs_inst r)"
  "base_srgb (rs_inst (snd (stage_base e r))) = base_srgb (rs_inst r)"
  "input_srgb (rs_inst (snd (stage_base e r))) = input_srgb (rs_inst r)"
  "base_color_space (rs_inst (snd (stage_base e r))) = base_color_space (rs_inst r)"
  "base_color_format (rs_inst (snd (stage_base e r))) = base_color_format (rs_inst r)"
  by (simp_all add: stage_base_def capture_base_inst base_begin_def base_try_frame render_prims
      ensure_base_rt_def Let_def)

lemma stage_input_frame:
  "debug_texture (rs_inst (stage_input e r)) = debug_texture (rs_inst r)"
  "input (rs_inst (stage_input e r)) = input (rs_inst r)"
  "have_base (rs_inst (stage_input e r)) = have_base (rs_inst r)"
  "base_tex (rs_inst (stage_input e r)) = base_tex (rs_inst r)"
  "base_color_space (rs_inst (stage_input e r)) = base_color_space (rs_inst r)"
  "base_color_format (rs_inst (stage_input e r)) = base_color_format (rs_inst r)"
  "have_final (rs_inst (stage_input e r)) = have_final (rs_inst r)"
  "final_tex (rs_inst (stage_input e r)) = final_tex (rs_inst r)"
  "base_srgb (rs_inst (stage_input e r)) = base_srgb (rs_inst r)"
  "input_srgb (rs_inst (stage_input e r)) = input_srgb (rs_inst r)"
  by (simp_all add: stage_input_def capture_input_def input_try_def alias_base_def render_prims
      Let_def split: outcome.splits option.splits)

lemma stage_final_frame:
  "debug_texture (rs_inst (stage_final e r)) = debug_texture (rs_inst r)"
  "input (rs_inst (stage_final e r)) = input (rs_inst r)"
  "have_base (rs_inst (stage_final e r)) = have_base (rs_inst r)"
  "base_tex (rs_inst (stage_final e r)) = base_tex (rs_inst r)"
  "base_color_space (rs_inst (stage_final e r)) = base_color_space (rs_inst r)"
  "base_color_format (rs_inst (stage_final e r)) = base_color_format (rs_inst r)"
  "have_input (rs_inst (stage_final e r)) = have_input (rs_inst r)"
  "input_tex (rs_inst (stage_final e r)) = input_tex (rs_inst r)"
  "input_color_space (rs_inst (stage_final e r)) = input_color_space (rs_inst r)"
  "input_color_format (rs_inst (stage_final e r)) = input_color_format (rs_inst r)"
  by (simp_all add: stage_final_def render_final_def final_try_def render_prims Let_def
      split: outcome.splits)

lemma mixed_debug_texture: "debug_texture (rs_inst (mixed e r)) = debug_texture (rs_inst r)"
  by (simp add: mixed_def stage_base_frame stage_input_frame stage_final_frame)

lemma stage_base_escapes:
  "fst (stage_base e r) = Some x \<longleftrightarrow>
     \<not> have_base (rs_inst r) \<and> re_begin e \<and> re_handler_end e = Some x
     \<and> (\<forall>t. re_base_capture e \<noteq> Captured t)"
  by (simp add: stage_base_def capture_base_escapes)

lemma stage_base_captured:
  assumes "re_base_capture e = Captured t"
  shows "fst (stage_base e r) = None"
proof (cases "fst (stage_base e r)")
  case None
  then show ?thesis .
next
  case (Some x)
  then show ?thesis
    using assms stage_base_escapes [of e r x] by simp
qed

lemma capture_base_captured:
  assumes "re_begin e" "re_base_capture e = Captured t"
  shows "have_base (rs_inst (snd (capture_base e r)))"
    and "base_tex (rs_inst (snd (capture_base e r))) = Some t"
  using assms
  by (simp_all add: capture_base_inst base_begin_def base_try_def render_prims Let_def)

lemma stage_final_runs:
  "\<not> have_final (rs_inst r) \<Longrightarrow> have_base (rs_inst r) \<Longrightarrow> stage_final e r = render_final e r"
  by (simp add: stage_final_def)

lemma render_final_captured:
  assumes "re_final_render e = Captured tf"
  shows "have_final (rs_inst (render_final e r))" "final_tex (rs_inst (render_final e r)) = Some tf"
  using assms by (simp_all add: render_final_def final_try_def render_prims Let_def)

lemma ok_env_answers:
  "re_begin ok_env" "re_base_capture ok_env = Captured 20" "re_input_capture ok_env = Captured 21"
  "re_final_render ok_env = Captured 30" "re_image_param ok_env" "re_input_alive ok_env"
  by (simp_all add: ok_env_def)

lemma stage_base_gs: "fst (stage_base e r) = None \<Longrightarrow> rs_gs (snd (stage_base e r)) = rs_gs r"
  by (simp add: stage_base_def capture_base_gs split: if_splits)

lemma mixed_gs: "fst (stage_base e r) = None \<Longrightarrow> rs_gs (mixed e r) = rs_gs r"
  by (simp add: mixed_def stage_input_def stage_final_def stage_base_gs
      capture_input_gs render_final_gs upd_inst_def split: option.splits)

text \<open>A call that passes the guard and returns is one that no exception leaves.\<close>

lemma returned_call:
  assumes "\<not> render_guard e r" "returned (fst (video_render e r))"
  shows "fst (stage_base e r) = None"
    and "video_render e r = present e (upd_inst debug_override (mixed e r))"
proof -
  show n: "fst (stage_base e r) = None"
    using assms by (cases "fst (stage_base e r)") (simp_all add: video_render_def)
  show "video_render e r = present e (upd_inst debug_override (mixed e r))"
    using assms(1) n by (simp add: video_render_def)
qed

text \<open>
  The first call of a tick in which everything succeeds, with the input bound to source 7
  and the debug selector at -1: it draws, and leaves all three slots valid, the base with
  texture 20, the input with texture 21 and the final slot with texture 30.
\<close>

lemma first_call_slots:
  "fst (video_render ok_env (tick srgb_tick fresh_bound)) = Drawn"
  "base_tex (rs_inst (snd (video_render ok_env (tick srgb_tick fresh_bound)))) = Some 20"
  "input_tex (rs_inst (snd (video_render ok_env (tick srgb_tick fresh_bound)))) = Some 21"
  "final_tex (rs_inst (snd (video_render ok_env (tick srgb_tick fresh_bound)))) = Some 30"
  "have_base (rs_inst (snd (video_render ok_env (tick srgb_tick fresh_bound))))"
  "have_input (rs_inst (snd (video_render ok_env (tick srgb_tick fresh_bound))))"
  "have_final (rs_inst (snd (video_render ok_env (tick srgb_tick fresh_bound))))"
  "input (rs_inst (snd (video_render ok_env (tick srgb_tick fresh_bound)))) = Some 7"
proof -
  let ?r = "tick srgb_tick fresh_bound"
  have g: "\<not> render_guard ok_env ?r"
    by (simp add: render_guard_def ok_env_def)
  have t: "rs_inst ?r = (rs_inst ?r)\<lparr>have_base := False\<rparr>" "\<not> have_base (rs_inst ?r)"
    "\<not> have_input (rs_inst ?r)" "\<not> have_final (rs_inst ?r)" "input (rs_inst ?r) = Some 7"
    "debug_texture (rs_inst ?r) = - 1"
    by (simp_all add: tick_def upd_inst_def video_tick_def tick_input_def tick_base_def
        lock_input_def fresh_bound_def fresh_def built_def constructed_def srgb_tick_def Let_def)
  have n: "fst (stage_base ok_env ?r) = None"
    by (rule stage_base_captured [of ok_env 20]) (simp add: ok_env_def)
  have b: "have_base (rs_inst (snd (stage_base ok_env ?r)))"
    "base_tex (rs_inst (snd (stage_base ok_env ?r))) = Some 20"
    using t(2) capture_base_captured [OF ok_env_answers(1,2), of ?r]
    by (simp_all add: stage_base_def)
  have l: "lock_input (re_input_alive ok_env) (rs_inst (snd (stage_base ok_env ?r))) = Some 7"
    using t(5) by (simp add: lock_input_def stage_base_frame ok_env_def)
  have i: "have_input (rs_inst (stage_input ok_env (snd (stage_base ok_env ?r))))"
    "input_tex (rs_inst (stage_input ok_env (snd (stage_base ok_env ?r)))) = Some 21"
    using t(3) l
    by (simp_all add: stage_input_def stage_base_frame)
      (simp_all add: capture_input_def input_try_def render_prims Let_def ok_env_def)
  have "mixed ok_env ?r = render_final ok_env (stage_input ok_env (snd (stage_base ok_env ?r)))"
    unfolding mixed_def using t(4) b(1)
    by (intro stage_final_runs) (simp_all add: stage_input_frame stage_base_frame)
  then have f: "have_final (rs_inst (mixed ok_env ?r))"
    "final_tex (rs_inst (mixed ok_env ?r)) = Some 30"
    using render_final_captured [OF ok_env_answers(4)] by simp_all
  have m: "base_tex (rs_inst (mixed ok_env ?r)) = Some 20" "have_base (rs_inst (mixed ok_env ?r))"
    "input_tex (rs_inst (mixed ok_env ?r)) = Some 21" "have_input (rs_inst (mixed ok_env ?r))"
    "input (rs_inst (mixed ok_env ?r)) = Some 7"
    using b i t(5) by (simp_all add: mixed_def stage_final_frame stage_input_frame stage_base_frame)
  have d: "debug_override (rs_inst (mixed ok_env ?r)) = rs_inst (mixed ok_env ?r)"
    using t(6) mixed_debug_texture [of ok_env ?r] by (simp add: debug_override_def)
  have v: "video_render ok_env ?r = present ok_env (upd_inst debug_override (mixed ok_env ?r))"
    using g n by (simp add: video_render_def)
  have s: "rs_inst (snd (video_render ok_env ?r)) = rs_inst (mixed ok_env ?r)"
    by (simp add: v present_inst upd_inst_def d)
  show "fst (video_render ok_env ?r) = Drawn"
    unfolding v present_draws_iff using f d by (simp add: upd_inst_def ok_env_def)
  show "base_tex (rs_inst (snd (video_render ok_env ?r))) = Some 20"
    "input_tex (rs_inst (snd (video_render ok_env ?r))) = Some 21"
    "final_tex (rs_inst (snd (video_render ok_env ?r))) = Some 30"
    "have_base (rs_inst (snd (video_render ok_env ?r)))"
    "have_input (rs_inst (snd (video_render ok_env ?r)))"
    "have_final (rs_inst (snd (video_render ok_env ?r)))"
    "input (rs_inst (snd (video_render ok_env ?r))) = Some 7"
    using f m by (simp_all add: s)
qed

text \<open>
  C5, as the code has it. In every render call that passes the guard at its head and
  returns, whatever the captures and the mixing pass did: with the debug selector 0 the
  final slot ends with the validity and the texture of the base slot, with 1 those of the
  input slot, and with any other value (-1 is "none") those the mixing pass left. The
  validity and texture of the base and input slots are as the captures left them. The
  call draws exactly when the final slot so chosen is valid, its texture is not null and
  the output effect has the parameter \<^verbatim>\<open>image\<close>; then the one call it adds is the draw of
  that texture, and otherwise the last call it makes tells the host to skip the filter.
\<close>

theorem debug_override_selects_presented_slot:
  assumes "\<not> render_guard e r" and "returned (fst (video_render e r))"
  shows "(debug_texture (rs_inst r) = 0 \<longrightarrow>
            have_final (rs_inst (snd (video_render e r))) = have_base (rs_inst (mixed e r))
            \<and> final_tex (rs_inst (snd (video_render e r))) = base_tex (rs_inst (mixed e r)))
         \<and> (debug_texture (rs_inst r) = 1 \<longrightarrow>
            have_final (rs_inst (snd (video_render e r))) = have_input (rs_inst (mixed e r))
            \<and> final_tex (rs_inst (snd (video_render e r))) = input_tex (rs_inst (mixed e r)))
         \<and> (debug_texture (rs_inst r) \<noteq> 0 \<and> debug_texture (rs_inst r) \<noteq> 1 \<longrightarrow>
            have_final (rs_inst (snd (video_render e r))) = have_final (rs_inst (mixed e r))
            \<and> final_tex (rs_inst (snd (video_render e r))) = final_tex (rs_inst (mixed e r)))
         \<and> have_base (rs_inst (snd (video_render e r))) = have_base (rs_inst (mixed e r))
         \<and> base_tex (rs_inst (snd (video_render e r))) = base_tex (rs_inst (mixed e r))
         \<and> have_input (rs_inst (snd (video_render e r))) = have_input (rs_inst (mixed e r))
         \<and> input_tex (rs_inst (snd (video_render e r))) = input_tex (rs_inst (mixed e r))
         \<and> (fst (video_render e r) = Drawn \<longleftrightarrow>
              have_final (rs_inst (snd (video_render e r)))
              \<and> (\<exists>t. final_tex (rs_inst (snd (video_render e r))) = Some t \<and> t \<noteq> 0)
              \<and> re_image_param e)
         \<and> (fst (video_render e r) = Drawn \<longrightarrow>
              (\<exists>t. final_tex (rs_inst (snd (video_render e r))) = Some t
                 \<and> rs_calls (snd (video_render e r))
                     = rs_calls (mixed e r) @ [DrawSprite t (linear_srgb (rs_gs r))]))
         \<and> (fst (video_render e r) = Skipped \<longrightarrow>
              last (rs_calls (snd (video_render e r))) = SkipVideoFilter)"
proof -
  let ?m = "rs_inst (mixed e r)"
  let ?p = "upd_inst debug_override (mixed e r)"
  have n: "fst (stage_base e r) = None" and v: "video_render e r = present e ?p"
    using returned_call [OF assms] by simp_all
  have s': "rs_inst (snd (video_render e r)) = debug_override ?m"
    by (simp add: v present_inst upd_inst_def)
  have p: "rs_inst ?p = debug_override ?m" "rs_gs ?p = rs_gs r" "rs_calls ?p = rs_calls (mixed e r)"
    by (simp_all add: upd_inst_def mixed_gs [OF n])
  have d: "debug_texture ?m = debug_texture (rs_inst r)"
    by (rule mixed_debug_texture)
  have draws: "fst (video_render e r) = Drawn \<longleftrightarrow>
      have_final (debug_override ?m) \<and> (\<exists>t. final_tex (debug_override ?m) = Some t \<and> t \<noteq> 0)
      \<and> re_image_param e"
    unfolding v present_draws_iff p ..
  have drawn: "\<exists>t. final_tex (debug_override ?m) = Some t
      \<and> rs_calls (snd (video_render e r))
          = rs_calls (mixed e r) @ [DrawSprite t (linear_srgb (rs_gs r))]"
    if "fst (video_render e r) = Drawn"
    using present_drawn [of e ?p] that unfolding v p by auto
  have skipped: "last (rs_calls (snd (video_render e r))) = SkipVideoFilter"
    if "fst (video_render e r) = Skipped"
    using present_skipped [of e ?p] that unfolding v by simp
  have sel: "(debug_texture (rs_inst r) = 0 \<longrightarrow>
          have_final (debug_override ?m) = have_base ?m
          \<and> final_tex (debug_override ?m) = base_tex ?m)
       \<and> (debug_texture (rs_inst r) = 1 \<longrightarrow>
          have_final (debug_override ?m) = have_input ?m
          \<and> final_tex (debug_override ?m) = input_tex ?m)
       \<and> (debug_texture (rs_inst r) \<noteq> 0 \<and> debug_texture (rs_inst r) \<noteq> 1 \<longrightarrow>
          have_final (debug_override ?m) = have_final ?m
          \<and> final_tex (debug_override ?m) = final_tex ?m)"
    using d by (simp add: debug_override_def)
  show ?thesis
    unfolding s' using sel draws drawn skipped by (simp add: debug_override_slots)
qed

text \<open>
  The theorem at work: all three passes succeed, and with the selector at 0 the call draws
  texture 20 of the base, not texture 30 of the mix.
\<close>

theorem debug_override_selects_presented_slot_witness:
  "\<not> render_guard ok_env (tick srgb_tick (upd_inst (\<lambda>s. s\<lparr>debug_texture := 0\<rparr>) fresh_bound))
   \<and> returned (fst (video_render ok_env
        (tick srgb_tick (upd_inst (\<lambda>s. s\<lparr>debug_texture := 0\<rparr>) fresh_bound))))
   \<and> final_tex (rs_inst (mixed ok_env
        (tick srgb_tick (upd_inst (\<lambda>s. s\<lparr>debug_texture := 0\<rparr>) fresh_bound)))) = Some 30
   \<and> final_tex (rs_inst (snd (video_render ok_env
        (tick srgb_tick (upd_inst (\<lambda>s. s\<lparr>debug_texture := 0\<rparr>) fresh_bound))))) = Some 20
   \<and> have_final (rs_inst (snd (video_render ok_env
        (tick srgb_tick (upd_inst (\<lambda>s. s\<lparr>debug_texture := 0\<rparr>) fresh_bound)))))
   \<and> fst (video_render ok_env
        (tick srgb_tick (upd_inst (\<lambda>s. s\<lparr>debug_texture := 0\<rparr>) fresh_bound))) = Drawn
   \<and> last (rs_calls (snd (video_render ok_env
        (tick srgb_tick (upd_inst (\<lambda>s. s\<lparr>debug_texture := 0\<rparr>) fresh_bound)))))
       = DrawSprite 20 False"
proof -
  let ?r = "tick srgb_tick (upd_inst (\<lambda>s. s\<lparr>debug_texture := 0\<rparr>) fresh_bound)"
  have g: "\<not> render_guard ok_env ?r"
    by (simp add: render_guard_def ok_env_def)
  have t: "\<not> have_base (rs_inst ?r)" "\<not> have_input (rs_inst ?r)" "\<not> have_final (rs_inst ?r)"
    "input (rs_inst ?r) = Some 7" "debug_texture (rs_inst ?r) = 0"
    "linear_srgb (rs_gs ?r) = False"
    by (simp_all add: tick_def upd_inst_def video_tick_def tick_input_def tick_base_def
        lock_input_def fresh_bound_def fresh_def built_def constructed_def srgb_tick_def Let_def)
  have n: "fst (stage_base ok_env ?r) = None"
    by (rule stage_base_captured [of ok_env 20]) (simp add: ok_env_def)
  have b: "have_base (rs_inst (snd (stage_base ok_env ?r)))"
    "base_tex (rs_inst (snd (stage_base ok_env ?r))) = Some 20"
    using t(1) capture_base_captured [OF ok_env_answers(1,2), of ?r]
    by (simp_all add: stage_base_def)
  have "mixed ok_env ?r = render_final ok_env (stage_input ok_env (snd (stage_base ok_env ?r)))"
    unfolding mixed_def using t(3) b(1)
    by (intro stage_final_runs) (simp_all add: stage_input_frame stage_base_frame)
  then have f: "final_tex (rs_inst (mixed ok_env ?r)) = Some 30"
    using render_final_captured [OF ok_env_answers(4)] by simp
  have m: "final_tex (rs_inst (mixed ok_env ?r)) = Some 30"
    "base_tex (rs_inst (mixed ok_env ?r)) = Some 20" "have_base (rs_inst (mixed ok_env ?r))"
    using f b by (simp_all add: mixed_def stage_final_frame stage_input_frame)
  have v: "video_render ok_env ?r = present ok_env (upd_inst debug_override (mixed ok_env ?r))"
    using g n by (simp add: video_render_def)
  have o: "have_final (debug_override (rs_inst (mixed ok_env ?r)))"
    "final_tex (debug_override (rs_inst (mixed ok_env ?r))) = Some 20"
    using t(5) m mixed_debug_texture [of ok_env ?r] by (simp_all add: debug_override_def)
  have dr: "fst (video_render ok_env ?r) = Drawn"
    unfolding v present_draws_iff using o by (simp add: upd_inst_def ok_env_def)
  then have ret: "returned (fst (video_render ok_env ?r))"
    by simp
  show ?thesis
    using debug_override_selects_presented_slot [OF g ret] g ret t(5,6) m dr
    by auto
qed

text \<open>
  The claim as stated fails for a call that stops at the guard. In one tick, a first call
  captures the base into texture 20 and mixes into texture 30; the debug selector is then
  set to 0, the base; the next call finds a target without width. It is skipped, so it
  presents nothing although the base slot is valid, and the final slot holds texture 30 of
  the mix, not texture 20 of the base.
\<close>

theorem skipped_call_presents_no_selected_slot:
  "debug_texture (rs_inst after_selecting_base) = 0
   \<and> have_base (rs_inst after_selecting_base)
   \<and> base_tex (rs_inst after_selecting_base) = Some 20
   \<and> fst (video_render (ok_env\<lparr>re_width := 0\<rparr>) after_selecting_base) = Skipped
   \<and> have_base (rs_inst (snd (video_render (ok_env\<lparr>re_width := 0\<rparr>) after_selecting_base)))
   \<and> base_tex (rs_inst (snd (video_render (ok_env\<lparr>re_width := 0\<rparr>) after_selecting_base)))
       = Some 20
   \<and> final_tex (rs_inst (snd (video_render (ok_env\<lparr>re_width := 0\<rparr>) after_selecting_base)))
       = Some 30"
proof -
  have g: "render_guard (ok_env\<lparr>re_width := 0\<rparr>) after_selecting_base"
    by (simp add: render_guard_def)
  have v: "video_render (ok_env\<lparr>re_width := 0\<rparr>) after_selecting_base
             = (Skipped, call SkipVideoFilter after_selecting_base)"
    using g by (simp add: video_render_def)
  have s: "debug_texture (rs_inst after_selecting_base) = 0"
    "have_base (rs_inst after_selecting_base)"
    "base_tex (rs_inst after_selecting_base) = Some 20"
    "final_tex (rs_inst after_selecting_base) = Some 30"
    using first_call_slots by (simp_all add: after_selecting_base_def upd_inst_def)
  show ?thesis
    using s by (simp add: v call_def)
qed

lemma tick_establishes:
  "input (rs_inst r) = None \<Longrightarrow>
   tick_invariant (rs_inst (tick te r)) \<and> rs_calls (tick te r) = rs_calls r"
  by (simp add: tick_def upd_inst_def video_tick_def tick_input_def tick_base_def lock_input_def
      tick_invariant_def Let_def)

lemma base_try_calls:
  "filter is_render_source (rs_calls (snd (base_try e r))) = filter is_render_source (rs_calls r)"
  by (simp add: base_try_def base_handler_def render_prims Let_def
      split: outcome.splits option.splits)

lemma capture_base_calls:
  "rs_calls (snd (capture_base e r))
     = rs_calls (snd (base_begin e
         (gs_enable_framebuffer_srgb False
            (gs_set_linear_srgb (base_srgb (rs_inst (upd_inst ensure_base_rt r)))
               (upd_inst ensure_base_rt r)))))"
  by (simp add: capture_base_def Let_def render_prims split: option.splits)

lemma stage_base_calls:
  "filter is_render_source (rs_calls (snd (stage_base e r)))
     = filter is_render_source (rs_calls r)"
  by (simp add: stage_base_def capture_base_calls base_begin_def base_try_calls render_prims
      Let_def)

lemma stage_final_calls:
  "filter is_render_source (rs_calls (stage_final e r)) = filter is_render_source (rs_calls r)"
  by (simp add: stage_final_def render_final_def final_try_def render_prims Let_def
      split: outcome.splits)

lemma present_calls:
  "filter is_render_source (rs_calls (snd (present e r))) = filter is_render_source (rs_calls r)"
  by (simp add: present_def render_prims Let_def split: option.splits)

lemma stage_base_valid:
  "have_base (rs_inst r) \<Longrightarrow> stage_base e r = (None, r)"
  by (simp add: stage_base_def)

lemma stage_input_unbound:
  assumes "input (rs_inst r) = None"
  shows "rs_calls (stage_input e r) = rs_calls r"
    and "rs_inst (stage_input e r)
           = (if have_input (rs_inst r) then rs_inst r else alias_base (rs_inst r))"
  using assms by (simp_all add: stage_input_def lock_input_def upd_inst_def)

lemma alias_base_aliases: "aliases_base (alias_base s)"
  by (simp add: alias_base_def aliases_base_def Let_def)

lemma aliases_base_cong:
  assumes "aliases_base s"
    and "input_tex s' = input_tex s" "base_tex s' = base_tex s"
    and "input_color_space s' = input_color_space s" "base_color_space s' = base_color_space s"
    and "input_color_format s' = input_color_format s"
    and "base_color_format s' = base_color_format s"
    and "have_input s' = have_input s" "have_base s' = have_base s"
  shows "aliases_base s'"
  using assms by (simp add: aliases_base_def)

lemma debug_override_frame:
  "input (debug_override s) = input s"
  "input_color_space (debug_override s) = input_color_space s"
  "base_color_space (debug_override s) = base_color_space s"
  "input_color_format (debug_override s) = input_color_format s"
  "base_color_format (debug_override s) = base_color_format s"
  by (simp_all add: debug_override_def)

text \<open>After the input stage of a call with no input bound, the input slot copies the base.\<close>

lemma unbound_after_input_stage:
  assumes "tick_invariant (rs_inst r)"
  shows "aliases_base (rs_inst (stage_input e (snd (stage_base e r))))"
    and "input (rs_inst (stage_input e (snd (stage_base e r)))) = None"
    and "filter is_render_source (rs_calls (stage_input e (snd (stage_base e r))))
           = filter is_render_source (rs_calls r)"
proof -
  have i: "input (rs_inst (snd (stage_base e r))) = None"
    using assms by (simp add: stage_base_frame tick_invariant_def)
  show "aliases_base (rs_inst (stage_input e (snd (stage_base e r))))"
  proof (cases "have_input (rs_inst r)")
    case True
    then have a: "aliases_base (rs_inst r)"
      using assms by (simp add: tick_invariant_def)
    then have "have_base (rs_inst r)"
      using True by (simp add: aliases_base_def)
    then show ?thesis
      using True a i by (simp add: stage_base_valid stage_input_unbound)
  next
    case False
    then show ?thesis
      using i by (simp add: stage_input_unbound stage_base_frame alias_base_aliases)
  qed
  show "input (rs_inst (stage_input e (snd (stage_base e r)))) = None"
    using i by (simp add: stage_input_frame)
  show "filter is_render_source (rs_calls (stage_input e (snd (stage_base e r))))
           = filter is_render_source (rs_calls r)"
    using i by (simp add: stage_input_unbound stage_base_calls)
qed

text \<open>
  A call of \<^verbatim>\<open>video_render\<close> with no input bound, however it ends: it renders no input
  source and keeps the invariant; when it passes the guard and returns, the input slot is
  a copy of the base slot.
\<close>

lemma render_keeps:
  assumes "tick_invariant (rs_inst r)"
  shows "tick_invariant (rs_inst (snd (video_render e r)))"
    and "filter is_render_source (rs_calls (snd (video_render e r)))
           = filter is_render_source (rs_calls r)"
    and "\<not> render_guard e r \<Longrightarrow> returned (fst (video_render e r)) \<Longrightarrow>
           aliases_base (rs_inst (snd (video_render e r)))"
proof -
  let ?r2 = "stage_input e (snd (stage_base e r))"
  let ?s' = "debug_override (rs_inst (stage_final e ?r2))"
  have a: "aliases_base ?s'"
    by (rule aliases_base_cong [OF unbound_after_input_stage(1) [OF assms, of e]])
      (simp_all add: debug_override_slots debug_override_frame stage_final_frame)
  have i: "input ?s' = None"
    using unbound_after_input_stage(2) [OF assms, of e]
    by (simp add: debug_override_frame stage_final_frame)
  have inv: "tick_invariant ?s'"
    using a i by (simp add: tick_invariant_def)
  have run: "rs_inst (snd (video_render e r)) = ?s'"
    if "\<not> render_guard e r" "fst (stage_base e r) = None"
    using that by (simp add: video_render_def present_inst upd_inst_def mixed_def)
  have skip: "snd (video_render e r) = call SkipVideoFilter r" if "render_guard e r"
    using that by (simp add: video_render_def)
  have esc: "snd (video_render e r) = snd (stage_base e r)"
    if "\<not> render_guard e r" "fst (stage_base e r) = Some x" for x
    using that by (simp add: video_render_def)
  have esc_inv: "tick_invariant (rs_inst (snd (stage_base e r)))"
    if "fst (stage_base e r) = Some x" for x
  proof -
    have "\<not> have_base (rs_inst r)"
      using that by (simp add: stage_base_escapes)
    then have "\<not> have_input (rs_inst r)"
      using assms by (auto simp: tick_invariant_def aliases_base_def)
    then show ?thesis
      using assms by (simp add: tick_invariant_def stage_base_frame)
  qed
  show "tick_invariant (rs_inst (snd (video_render e r)))"
  proof (cases "render_guard e r")
    case True
    then show ?thesis
      using assms by (simp add: skip call_def)
  next
    case False
    show ?thesis
    proof (cases "fst (stage_base e r)")
      case None
      then show ?thesis
        using False inv run by simp
    next
      case (Some x)
      then show ?thesis
        using False esc [of x] esc_inv [of x] by simp
    qed
  qed
  show "aliases_base (rs_inst (snd (video_render e r)))"
    if "\<not> render_guard e r" "returned (fst (video_render e r))"
    using a run [OF that(1) returned_call(1) [OF that]] by simp
  show "filter is_render_source (rs_calls (snd (video_render e r)))
           = filter is_render_source (rs_calls r)"
  proof (cases "render_guard e r")
    case True
    then show ?thesis by (simp add: skip call_def)
  next
    case False
    show ?thesis
    proof (cases "fst (stage_base e r)")
      case None
      then have "snd (video_render e r) = snd (present e (upd_inst debug_override (mixed e r)))"
        using False by (simp add: video_render_def)
      then show ?thesis
        using unbound_after_input_stage(3) [OF assms, of e]
        by (simp add: present_calls upd_inst_def mixed_def stage_final_calls)
    next
      case (Some x)
      then show ?thesis
        using False esc [of x] by (simp add: stage_base_calls)
    qed
  qed
qed

lemma renders_keep:
  "tick_invariant (rs_inst r) \<Longrightarrow>
   tick_invariant (rs_inst (renders es r))
   \<and> filter is_render_source (rs_calls (renders es r)) = filter is_render_source (rs_calls r)"
proof (induction es arbitrary: r)
  case Nil
  then show ?case by simp
next
  case (Cons e es)
  from Cons.IH [OF render_keeps(1) [OF Cons.prems, of e]] render_keeps(2) [OF Cons.prems, of e]
  show ?case by simp
qed

text \<open>
  C6, as the code has it. With no input bound, after \<^verbatim>\<open>video_tick\<close> and any calls of
  \<^verbatim>\<open>video_render\<close> (however they ended, whatever the host answered in them), a further
  call of \<^verbatim>\<open>video_render\<close> makes no call that renders an input source; and when it
  passes the guard at its head and returns, so that it reaches the branch that treats no
  selection as selecting the target, it leaves the texture, the colour space and the
  colour format of the input slot equal to those of the base slot, and the input slot
  exactly as valid as the base slot.
\<close>

theorem unbound_input_aliases_base:
  assumes "input (rs_inst r) = None"
  shows "filter is_render_source (rs_calls (snd (video_render e (renders es (tick te r)))))
           = filter is_render_source (rs_calls r)
         \<and> (\<not> render_guard e (renders es (tick te r))
              \<and> returned (fst (video_render e (renders es (tick te r)))) \<longrightarrow>
              aliases_base (rs_inst (snd (video_render e (renders es (tick te r))))))"
proof -
  have t: "tick_invariant (rs_inst (tick te r))" "rs_calls (tick te r) = rs_calls r"
    using tick_establishes [OF assms, of te] by simp_all
  have k: "tick_invariant (rs_inst (renders es (tick te r)))"
    "filter is_render_source (rs_calls (renders es (tick te r)))
       = filter is_render_source (rs_calls r)"
    using renders_keep [OF t(1), of es] t(2) by simp_all
  show ?thesis
    using render_keeps(2,3) [OF k(1), of e] k(2) by simp
qed

text \<open>
  The theorem at work: a first call that is skipped for a target without width, then a
  call in which the base is captured into texture 20 and which draws; the input slot holds
  texture 20 and no input source was rendered.
\<close>

theorem unbound_input_aliases_base_witness:
  "input (rs_inst fresh) = None
   \<and> \<not> render_guard ok_env (renders [ok_env\<lparr>re_width := 0\<rparr>] (tick srgb_tick fresh))
   \<and> returned (fst (video_render ok_env
        (renders [ok_env\<lparr>re_width := 0\<rparr>] (tick srgb_tick fresh))))
   \<and> aliases_base (rs_inst (snd (video_render ok_env
        (renders [ok_env\<lparr>re_width := 0\<rparr>] (tick srgb_tick fresh)))))
   \<and> base_tex (rs_inst (snd (video_render ok_env
        (renders [ok_env\<lparr>re_width := 0\<rparr>] (tick srgb_tick fresh))))) = Some 20
   \<and> input_tex (rs_inst (snd (video_render ok_env
        (renders [ok_env\<lparr>re_width := 0\<rparr>] (tick srgb_tick fresh))))) = Some 20
   \<and> filter is_render_source (rs_calls (snd (video_render ok_env
        (renders [ok_env\<lparr>re_width := 0\<rparr>] (tick srgb_tick fresh))))) = []"
proof -
  let ?r = "call SkipVideoFilter (tick srgb_tick fresh)"
  have i: "input (rs_inst fresh) = None" "rs_calls fresh = []"
    by (simp_all add: fresh_def built_def constructed_def)
  have sk: "renders [ok_env\<lparr>re_width := 0\<rparr>] (tick srgb_tick fresh) = ?r"
    by (simp add: video_render_def render_guard_def)
  have t: "\<not> have_base (rs_inst ?r)" "\<not> have_input (rs_inst ?r)" "\<not> have_final (rs_inst ?r)"
    "input (rs_inst ?r) = None" "debug_texture (rs_inst ?r) = - 1"
    by (simp_all add: call_def tick_def upd_inst_def video_tick_def tick_input_def tick_base_def
        lock_input_def fresh_def built_def constructed_def srgb_tick_def Let_def)
  have g: "\<not> render_guard ok_env ?r"
    using t(4) by (simp add: render_guard_def ok_env_def lock_input_def)
  have n: "fst (stage_base ok_env ?r) = None"
    by (rule stage_base_captured [of ok_env 20]) (simp add: ok_env_def)
  have b: "have_base (rs_inst (snd (stage_base ok_env ?r)))"
    "base_tex (rs_inst (snd (stage_base ok_env ?r))) = Some 20"
    using t(1) capture_base_captured [OF ok_env_answers(1,2), of ?r]
    by (simp_all add: stage_base_def)
  have "mixed ok_env ?r = render_final ok_env (stage_input ok_env (snd (stage_base ok_env ?r)))"
    unfolding mixed_def using t(3) b(1)
    by (intro stage_final_runs) (simp_all add: stage_input_frame stage_base_frame)
  then have f: "have_final (rs_inst (mixed ok_env ?r))"
    "final_tex (rs_inst (mixed ok_env ?r)) = Some 30"
    using render_final_captured [OF ok_env_answers(4)] by simp_all
  have d: "debug_override (rs_inst (mixed ok_env ?r)) = rs_inst (mixed ok_env ?r)"
    using t(5) mixed_debug_texture [of ok_env ?r] by (simp add: debug_override_def)
  have v: "video_render ok_env ?r = present ok_env (upd_inst debug_override (mixed ok_env ?r))"
    using g n by (simp add: video_render_def)
  have dr: "fst (video_render ok_env ?r) = Drawn"
    unfolding v present_draws_iff using f d by (simp add: upd_inst_def ok_env_def)
  then have ret: "returned (fst (video_render ok_env ?r))"
    by simp
  have bt: "base_tex (rs_inst (snd (video_render ok_env ?r))) = Some 20"
    using b(2)
    by (simp add: v present_inst upd_inst_def debug_override_slots mixed_def stage_final_frame
        stage_input_frame)
  have al: "aliases_base (rs_inst (snd (video_render ok_env ?r)))"
    "filter is_render_source (rs_calls (snd (video_render ok_env ?r))) = []"
    using unbound_input_aliases_base
      [OF i(1), of ok_env "[ok_env\<lparr>re_width := 0\<rparr>]" srgb_tick, unfolded sk] g ret i(2)
    by simp_all
  have "input_tex (rs_inst (snd (video_render ok_env ?r))) = Some 20"
    using al(1) bt by (simp add: aliases_base_def)
  then show ?thesis
    unfolding sk using i(1) g ret al bt by simp
qed

















lemma release_keeps_textures:
  "base_tex (snd (release (w, s))) = base_tex s" "input_tex (snd (release (w, s))) = input_tex s"
  "input (snd (release (w, s))) = None"
  by (simp_all add: release_def hide_def deactivate_def)

lemma after_unbinding_slots:
  "input (rs_inst after_unbinding) = None"
  "base_tex (rs_inst after_unbinding) = Some 20"
  "input_tex (rs_inst after_unbinding) = Some 21"
  using first_call_slots
  by (simp_all add: after_unbinding_def upd_inst_def release_keeps_textures)

lemma tick_keeps_textures:
  "base_tex (rs_inst (tick te r)) = base_tex (rs_inst r)"
  "input_tex (rs_inst (tick te r)) = input_tex (rs_inst r)"
  "input (rs_inst (tick te r)) = input (rs_inst r)"
  "\<not> have_base (rs_inst (tick te r))"
  by (simp_all add: tick_def upd_inst_def video_tick_def tick_input_def tick_base_def Let_def
      split: option.splits)

text \<open>
  The claim as stated fails for a call that does not reach the branch that copies the base.
  The input, bound during the tick before and captured into texture 21, is unbound. The
  first call of the next tick finds a target without width and stops at the guard: the
  input slot still holds texture 21 while the base slot holds texture 20. The same holds
  when the call passes the guard and an exception leaves the base capture through its
  handler.
\<close>

theorem skipped_call_keeps_stale_input_texture:
  "input (rs_inst after_unbinding) = None
   \<and> render_guard (ok_env\<lparr>re_width := 0\<rparr>) (tick srgb_tick after_unbinding)
   \<and> base_tex (rs_inst (snd (video_render (ok_env\<lparr>re_width := 0\<rparr>)
        (tick srgb_tick after_unbinding)))) = Some 20
   \<and> input_tex (rs_inst (snd (video_render (ok_env\<lparr>re_width := 0\<rparr>)
        (tick srgb_tick after_unbinding)))) = Some 21
   \<and> \<not> aliases_base (rs_inst (snd (video_render (ok_env\<lparr>re_width := 0\<rparr>)
        (tick srgb_tick after_unbinding))))
   \<and> \<not> render_guard
          (ok_env\<lparr>re_base_capture := Throws_at_render StdException,
                   re_handler_end := Some StdException\<rparr>) (tick srgb_tick after_unbinding)
   \<and> fst (video_render
          (ok_env\<lparr>re_base_capture := Throws_at_render StdException,
                   re_handler_end := Some StdException\<rparr>) (tick srgb_tick after_unbinding))
       = Escaped StdException
   \<and> \<not> aliases_base (rs_inst (snd (video_render
          (ok_env\<lparr>re_base_capture := Throws_at_render StdException,
                   re_handler_end := Some StdException\<rparr>) (tick srgb_tick after_unbinding))))"
proof -
  let ?r = "tick srgb_tick after_unbinding"
  let ?x = "ok_env\<lparr>re_base_capture := Throws_at_render StdException,
                    re_handler_end := Some StdException\<rparr>"
  have s: "input (rs_inst ?r) = None" "base_tex (rs_inst ?r) = Some 20"
    "input_tex (rs_inst ?r) = Some 21" "\<not> have_base (rs_inst ?r)"
    using after_unbinding_slots by (simp_all add: tick_keeps_textures)
  have g: "render_guard (ok_env\<lparr>re_width := 0\<rparr>) ?r"
    by (simp add: render_guard_def)
  have v: "rs_inst (snd (video_render (ok_env\<lparr>re_width := 0\<rparr>) ?r)) = rs_inst ?r"
    using g by (simp add: video_render_def call_def)
  have n: "\<not> render_guard ?x ?r"
    using s(1) by (simp add: render_guard_def lock_input_def ok_env_def)
  have e: "fst (stage_base ?x ?r) = Some StdException"
    using s(4) by (simp add: stage_base_escapes ok_env_def)
  have w: "video_render ?x ?r = (Escaped StdException, snd (stage_base ?x ?r))"
    using n e by (simp add: video_render_def)
  have b: "base_tex (rs_inst (snd (stage_base ?x ?r))) = Some 20"
    using s(2,4)
    by (simp add: stage_base_def capture_base_inst base_begin_def base_try_def
        base_handler_frame render_prims ensure_base_rt_def Let_def ok_env_def)
  have i: "input_tex (rs_inst (snd (stage_base ?x ?r))) = Some 21"
    using s(3) by (simp add: stage_base_frame)
  show ?thesis
    using after_unbinding_slots(1) g n s b i by (simp add: v w aliases_base_def)
qed

end
